theory Spec2Isabelle
  imports Complex_Main "HOL-Library.Word" "HOL-Library.Code_Target_Numeral"
begin

unbundle bit_operations_syntax

section \<open>The C++ type float: IEEE 754 binary32\<close>

text \<open>
  A \<^verbatim>\<open>float\<close> is its 32-bit pattern: bit 31 the sign, bits 30..23 the biased exponent,
  bits 22..0 the fraction. The source reads floats this way itself (the macro
  \<^verbatim>\<open>ISNAN\<close> of MathSIMD.h, line 191, masks the pattern with 0x7F800000 and 0x7FFFFF).
\<close>

type_synonym float32 = "32 word"

definition f32_sign :: "float32 \<Rightarrow> bool" where
  "f32_sign a = bit a 31"

definition f32_expo :: "float32 \<Rightarrow> nat" where
  "f32_expo a = unat (take_bit 8 (drop_bit 23 a))"

definition f32_frac :: "float32 \<Rightarrow> nat" where
  "f32_frac a = unat (take_bit 23 a)"

definition f32_is_nan :: "float32 \<Rightarrow> bool" where
  "f32_is_nan a = (f32_expo a = 255 \<and> f32_frac a \<noteq> 0)"

definition f32_is_inf :: "float32 \<Rightarrow> bool" where
  "f32_is_inf a = (f32_expo a = 255 \<and> f32_frac a = 0)"

definition f32_is_zero :: "float32 \<Rightarrow> bool" where
  "f32_is_zero a = (f32_expo a = 0 \<and> f32_frac a = 0)"

text \<open>
  A float that is not a NaN has the value \<open>mant * 2\<^sup>e\<^sup>x\<^sup>p\<^sup>2\<close>: the significand with its
  sign and hidden bit, and the exponent of its last bit, which is \<open>-149\<close> for the
  subnormals. The formula of the normal numbers, read at exponent 255 and fraction 0,
  gives the infinities the values \<open>\<plusminus> 2\<^sup>1\<^sup>2\<^sup>8\<close>, beyond every finite float: the order of
  the values is the order of the floats.
\<close>

definition f32_mant :: "float32 \<Rightarrow> int" where
  "f32_mant a =
     (if f32_sign a then - 1 else 1) *
     (if f32_expo a = 0 then int (f32_frac a) else 2 ^ 23 + int (f32_frac a))"

definition f32_exp2 :: "float32 \<Rightarrow> int" where
  "f32_exp2 a = (if f32_expo a = 0 then - 149 else int (f32_expo a) - 150)"

definition f32_valof :: "float32 \<Rightarrow> rat" where
  "f32_valof a = of_int (f32_mant a * 2 ^ nat (f32_exp2 a + 149)) / 2 ^ 149"

subsection \<open>The relational operators of float\<close>

text \<open>Every comparison with a NaN is false, but \<^verbatim>\<open>!=\<close>, which is the negation of \<^verbatim>\<open>==\<close>.\<close>

definition f32_lt :: "float32 \<Rightarrow> float32 \<Rightarrow> bool" where
  "f32_lt a b = (\<not> f32_is_nan a \<and> \<not> f32_is_nan b \<and> f32_valof a < f32_valof b)"

definition f32_le :: "float32 \<Rightarrow> float32 \<Rightarrow> bool" where
  "f32_le a b = (\<not> f32_is_nan a \<and> \<not> f32_is_nan b \<and> f32_valof a \<le> f32_valof b)"

definition f32_gt :: "float32 \<Rightarrow> float32 \<Rightarrow> bool" where
  "f32_gt a b = (\<not> f32_is_nan a \<and> \<not> f32_is_nan b \<and> f32_valof b < f32_valof a)"

definition f32_ge :: "float32 \<Rightarrow> float32 \<Rightarrow> bool" where
  "f32_ge a b = (\<not> f32_is_nan a \<and> \<not> f32_is_nan b \<and> f32_valof b \<le> f32_valof a)"

definition f32_eq :: "float32 \<Rightarrow> float32 \<Rightarrow> bool" where
  "f32_eq a b = (\<not> f32_is_nan a \<and> \<not> f32_is_nan b \<and> f32_valof a = f32_valof b)"

definition f32_ne :: "float32 \<Rightarrow> float32 \<Rightarrow> bool" where
  "f32_ne a b = (\<not> f32_eq a b)"

subsection \<open>Sign operations\<close>

definition fabsf :: "float32 \<Rightarrow> float32" where
  "fabsf a = a AND 0x7FFFFFFF"

definition f32_neg :: "float32 \<Rightarrow> float32" where
  "f32_neg a = a XOR 0x80000000"

definition f32_with_sign :: "bool \<Rightarrow> float32 \<Rightarrow> float32" where
  "f32_with_sign s a = (if s then a OR 0x80000000 else a)"

subsection \<open>Rounding to nearest, ties to even\<close>

text \<open>The number of binary digits of a natural number.\<close>

fun nbits :: "nat \<Rightarrow> int" where
  "nbits n = (if n = 0 then 0 else 1 + nbits (n div 2))"

declare nbits.simps [simp del]

text \<open>
  The integer nearest to \<open>p / d\<close>, the even one of two equally near: the quotient \<open>q\<close> or
  its successor, by the remainder \<open>r\<close>.
\<close>

definition rne_pick :: "nat \<Rightarrow> nat \<Rightarrow> nat \<Rightarrow> nat" where
  "rne_pick q r d =
     (if 2 * r < d then q
      else if d < 2 * r then q + 1
      else if even q then q else q + 1)"

definition rne_div :: "nat \<Rightarrow> nat \<Rightarrow> nat" where
  "rne_div p d = rne_pick (p div d) (p mod d) d"

text \<open>
  The float nearest to the positive number \<open>p / d * 2\<^sup>k\<close>. Its binade \<open>e\<close>, with
  \<open>2\<^sup>e \<le> p / d * 2\<^sup>k < 2\<^sup>e\<^sup>+\<^sup>1\<close>, is the estimate \<open>l\<close> from the numbers of digits or one less;
  it is not taken below \<open>-126\<close>, the binade of the subnormals. The significand of 24
  bits is \<open>p / d * 2\<^sup>k / 2\<^sup>e\<^sup>-\<^sup>2\<^sup>3\<close>, rounded. A significand that rounds up to \<open>2\<^sup>2\<^sup>4\<close> carries
  into the exponent, and so does the hidden bit of a normal number: the pattern is
  \<open>(e + 126) * 2\<^sup>2\<^sup>3\<close> plus the significand. What reaches the exponent 255 is the infinity.
\<close>

definition binade_from :: "int \<Rightarrow> nat \<Rightarrow> nat \<Rightarrow> int \<Rightarrow> int" where
  "binade_from l p d k = (if p * 2 ^ nat (k - l) < d * 2 ^ nat (l - k) then l - 1 else l)"

definition f32_binade :: "nat \<Rightarrow> nat \<Rightarrow> int \<Rightarrow> int" where
  "f32_binade p d k = binade_from (nbits p - nbits d + k) p d k"

definition f32_encode :: "nat \<Rightarrow> float32" where
  "f32_encode bits = (if 255 * 2 ^ 23 \<le> bits then 0x7F800000 else of_nat bits)"

definition f32_round_at :: "int \<Rightarrow> nat \<Rightarrow> nat \<Rightarrow> int \<Rightarrow> float32" where
  "f32_round_at e p d k =
     f32_encode (nat (e + 126) * 2 ^ 23 +
                 rne_div (p * 2 ^ nat (23 - e + k)) (d * 2 ^ nat (e - 23 - k)))"

definition f32_round :: "nat \<Rightarrow> nat \<Rightarrow> int \<Rightarrow> float32" where
  "f32_round p d k = f32_round_at (max (f32_binade p d k) (- 126)) p d k"

text \<open>A decimal literal of the source, such as \<^verbatim>\<open>0.999998f\<close>, is \<open>f32_lit 999998 1000000\<close>.\<close>

definition f32_lit :: "nat \<Rightarrow> nat \<Rightarrow> float32" where
  "f32_lit p d = (if p = 0 then 0 else f32_round p d 0)"

subsection \<open>Arithmetic\<close>

text \<open>
  The four operations and the square root are the exact result, rounded. A NaN operand
  comes back quieted, the first one first; an invalid operation (\<open>\<infinity> - \<infinity>\<close>, \<open>0 * \<infinity>\<close>,
  \<open>0 / 0\<close>, \<open>\<infinity> / \<infinity>\<close>, the root of a negative number) gives the default NaN of SSE. A
  sum that is exactly zero is \<open>+0\<close> unless both operands are negative; a product or a
  quotient has the sign of its operands' signs, also when it is zero.
\<close>

definition f32_quiet :: "float32 \<Rightarrow> float32" where
  "f32_quiet a = a OR 0x00400000"

definition f32_default_nan :: float32 where
  "f32_default_nan = 0xFFC00000"

definition f32_inf :: float32 where
  "f32_inf = 0x7F800000"

text \<open>The quiet NaN of \<^verbatim>\<open>std::numeric_limits<float>::quiet_NaN()\<close>.\<close>

definition f32_qnan :: float32 where
  "f32_qnan = 0x7FC00000"

text \<open>The float nearest to \<open>s * 2\<^sup>k\<close> for an integer \<open>s\<close>; \<open>neg\<close> is the sign of a zero.\<close>

definition f32_pack :: "int \<Rightarrow> int \<Rightarrow> bool \<Rightarrow> float32" where
  "f32_pack s k neg =
     (if s = 0 then f32_with_sign neg 0
      else f32_with_sign (s < 0) (f32_round (nat \<bar>s\<bar>) 1 k))"

definition f32_sum_at :: "int \<Rightarrow> float32 \<Rightarrow> float32 \<Rightarrow> float32" where
  "f32_sum_at k a b =
     f32_pack (f32_mant a * 2 ^ nat (f32_exp2 a - k) + f32_mant b * 2 ^ nat (f32_exp2 b - k)) k
              (f32_sign a \<and> f32_sign b)"

definition f32_add :: "float32 \<Rightarrow> float32 \<Rightarrow> float32" where
  "f32_add a b =
     (if f32_is_nan a then f32_quiet a
      else if f32_is_nan b then f32_quiet b
      else if f32_is_inf a then
        (if f32_is_inf b \<and> f32_sign a \<noteq> f32_sign b then f32_default_nan else a)
      else if f32_is_inf b then b
      else f32_sum_at (min (f32_exp2 a) (f32_exp2 b)) a b)"

definition f32_sub :: "float32 \<Rightarrow> float32 \<Rightarrow> float32" where
  "f32_sub a b =
     (if f32_is_nan a then f32_quiet a
      else if f32_is_nan b then f32_quiet b
      else f32_add a (f32_neg b))"

definition f32_mul :: "float32 \<Rightarrow> float32 \<Rightarrow> float32" where
  "f32_mul a b =
     (if f32_is_nan a then f32_quiet a
      else if f32_is_nan b then f32_quiet b
      else if (f32_is_inf a \<and> f32_is_zero b) \<or> (f32_is_zero a \<and> f32_is_inf b)
        then f32_default_nan
      else if f32_is_inf a \<or> f32_is_inf b
        then f32_with_sign (f32_sign a \<noteq> f32_sign b) f32_inf
      else f32_pack (f32_mant a * f32_mant b) (f32_exp2 a + f32_exp2 b)
                    (f32_sign a \<noteq> f32_sign b))"

definition f32_div :: "float32 \<Rightarrow> float32 \<Rightarrow> float32" where
  "f32_div a b =
     (if f32_is_nan a then f32_quiet a
      else if f32_is_nan b then f32_quiet b
      else if (f32_is_inf a \<and> f32_is_inf b) \<or> (f32_is_zero a \<and> f32_is_zero b)
        then f32_default_nan
      else if f32_is_inf a \<or> f32_is_zero b
        then f32_with_sign (f32_sign a \<noteq> f32_sign b) f32_inf
      else if f32_is_inf b \<or> f32_is_zero a
        then f32_with_sign (f32_sign a \<noteq> f32_sign b) 0
      else f32_with_sign (f32_sign a \<noteq> f32_sign b)
             (f32_round (nat \<bar>f32_mant a\<bar>) (nat \<bar>f32_mant b\<bar>) (f32_exp2 a - f32_exp2 b)))"

text \<open>The integer square root, two bits of the argument for one of the result.\<close>

definition isqrt_step :: "nat \<Rightarrow> nat \<Rightarrow> nat" where
  "isqrt_step r n = (if (r + 1) * (r + 1) \<le> n then r + 1 else r)"

fun isqrt :: "nat \<Rightarrow> nat" where
  "isqrt n = (if n < 2 then n else isqrt_step (2 * isqrt (n div 4)) n)"

declare isqrt.simps [simp del]

text \<open>
  \<^verbatim>\<open>sqrtf\<close>. A positive finite \<open>a\<close> is \<open>x / 4\<^sup>4\<^sup>0 * 4\<^sup>h\<close>, where \<open>h\<close> is half the exponent of \<open>a\<close>,
  rounded down, and \<open>x\<close> is the significand, doubled when that exponent is odd, times
  \<open>4\<^sup>4\<^sup>0\<close>. Its root is \<open>sqrt x * 2\<^sup>h\<^sup>-\<^sup>4\<^sup>0\<close>. The integer root \<open>r\<close> of \<open>x\<close> has 41 bits or more,
  and one more bit below it says whether it is exact, which is all that the rounding to
  24 bits asks.
\<close>

definition sqrt_sticky :: "nat \<Rightarrow> nat \<Rightarrow> nat" where
  "sqrt_sticky r x = 2 * r + (if r * r = x then 0 else 1)"

definition f32_sqrt_of :: "nat \<Rightarrow> int \<Rightarrow> float32" where
  "f32_sqrt_of x h = f32_round (sqrt_sticky (isqrt x) x) 2 (h - 40)"

definition sqrtf :: "float32 \<Rightarrow> float32" where
  "sqrtf a =
     (if f32_is_nan a then f32_quiet a
      else if f32_is_zero a then a
      else if f32_sign a then f32_default_nan
      else if f32_is_inf a then a
      else f32_sqrt_of (nat (f32_mant a) * 2 ^ nat (f32_exp2 a mod 2) * 4 ^ 40)
                       (f32_exp2 a div 2))"

section \<open>DirectXMath\<close>

text \<open>
  MathSIMD.h is written on top of the DirectXMath library (\<^verbatim>\<open>#include <DirectXMath.h>\<close>,
  line 157), which is not part of the repository. Its functions are given here as the
  library defines them in DirectXMathVector.inl (the functions of vectors) and
  DirectXMathMisc.inl (the functions of quaternions and \<^verbatim>\<open>XMScalarACos\<close>), on the path
  without intrinsics, which states each lane as a C++ expression; the names are the
  library's. An \<^verbatim>\<open>XMVECTOR\<close> is four floats, \<open>f0\<close> to \<open>f3\<close> for the lanes x, y, z and w.
\<close>

record XMVECTOR =
  f0 :: float32
  f1 :: float32
  f2 :: float32
  f3 :: float32

definition XMVectorSet :: "float32 \<Rightarrow> float32 \<Rightarrow> float32 \<Rightarrow> float32 \<Rightarrow> XMVECTOR" where
  "XMVectorSet x y z w = \<lparr>f0 = x, f1 = y, f2 = z, f3 = w\<rparr>"

definition XMVectorZero :: XMVECTOR where
  "XMVectorZero = XMVectorSet 0 0 0 0"

definition g_XMZero :: XMVECTOR where
  "g_XMZero = XMVectorSet 0 0 0 0"

definition XMVectorReplicate :: "float32 \<Rightarrow> XMVECTOR" where
  "XMVectorReplicate s = XMVectorSet s s s s"

definition XMVectorGetX :: "XMVECTOR \<Rightarrow> float32" where
  "XMVectorGetX V = f0 V"

definition XMVectorGetY :: "XMVECTOR \<Rightarrow> float32" where
  "XMVectorGetY V = f1 V"

definition XMVectorGetZ :: "XMVECTOR \<Rightarrow> float32" where
  "XMVectorGetZ V = f2 V"

definition XMVectorGetW :: "XMVECTOR \<Rightarrow> float32" where
  "XMVectorGetW V = f3 V"

definition XMVectorSetW :: "XMVECTOR \<Rightarrow> float32 \<Rightarrow> XMVECTOR" where
  "XMVectorSetW V w = V\<lparr>f3 := w\<rparr>"

text \<open>The lane-wise functions apply one operation to each of the four lanes.\<close>

definition lanes1 :: "(float32 \<Rightarrow> float32) \<Rightarrow> XMVECTOR \<Rightarrow> XMVECTOR" where
  "lanes1 g V = XMVectorSet (g (f0 V)) (g (f1 V)) (g (f2 V)) (g (f3 V))"

definition lanes2 ::
  "(float32 \<Rightarrow> float32 \<Rightarrow> float32) \<Rightarrow> XMVECTOR \<Rightarrow> XMVECTOR \<Rightarrow> XMVECTOR" where
  "lanes2 g V1 V2 =
     XMVectorSet (g (f0 V1) (f0 V2)) (g (f1 V1) (f1 V2)) (g (f2 V1) (f2 V2)) (g (f3 V1) (f3 V2))"

definition XMVectorAbs :: "XMVECTOR \<Rightarrow> XMVECTOR" where
  "XMVectorAbs V = lanes1 fabsf V"

definition XMVectorNegate :: "XMVECTOR \<Rightarrow> XMVECTOR" where
  "XMVectorNegate V = lanes1 f32_neg V"



text \<open>A comparison that returns a vector sets all the bits of a lane where it holds.\<close>

definition XMVectorLess :: "XMVECTOR \<Rightarrow> XMVECTOR \<Rightarrow> XMVECTOR" where
  "XMVectorLess V1 V2 = lanes2 (\<lambda>a b. if f32_lt a b then 0xFFFFFFFF else 0) V1 V2"


text \<open>\<^verbatim>\<open>XMVectorSelect\<close> takes each bit from \<open>V2\<close> where the control bit is set, else from \<open>V1\<close>.\<close>

definition XMVectorSelect :: "XMVECTOR \<Rightarrow> XMVECTOR \<Rightarrow> XMVECTOR \<Rightarrow> XMVECTOR" where
  "XMVectorSelect V1 V2 Control =
     XMVectorSet ((f0 V1 AND NOT (f0 Control)) OR (f0 V2 AND f0 Control))
                 ((f1 V1 AND NOT (f1 Control)) OR (f1 V2 AND f1 Control))
                 ((f2 V1 AND NOT (f2 Control)) OR (f2 V2 AND f2 Control))
                 ((f3 V1 AND NOT (f3 Control)) OR (f3 V2 AND f3 Control))"

definition g_XMSelect1110 :: XMVECTOR where
  "g_XMSelect1110 = XMVectorSet 0xFFFFFFFF 0xFFFFFFFF 0xFFFFFFFF 0"

text \<open>\<^verbatim>\<open>XMISNAN\<close> is the macro \<^verbatim>\<open>ISNAN\<close> of MathSIMD.h, line 191, word for word.\<close>

definition XMISNAN :: "float32 \<Rightarrow> bool" where
  "XMISNAN x = ((x AND 0x7F800000) = 0x7F800000 \<and> (x AND 0x7FFFFF) \<noteq> 0)"

definition XMISINF :: "float32 \<Rightarrow> bool" where
  "XMISINF x = ((x AND 0x7FFFFFFF) = 0x7F800000)"

definition XMVector2IsNaN :: "XMVECTOR \<Rightarrow> bool" where
  "XMVector2IsNaN V = (XMISNAN (f0 V) \<or> XMISNAN (f1 V))"

definition XMVector3IsNaN :: "XMVECTOR \<Rightarrow> bool" where
  "XMVector3IsNaN V = (XMISNAN (f0 V) \<or> XMISNAN (f1 V) \<or> XMISNAN (f2 V))"

definition XMVector4IsNaN :: "XMVECTOR \<Rightarrow> bool" where
  "XMVector4IsNaN V = (XMISNAN (f0 V) \<or> XMISNAN (f1 V) \<or> XMISNAN (f2 V) \<or> XMISNAN (f3 V))"

definition XMVector2IsInfinite :: "XMVECTOR \<Rightarrow> bool" where
  "XMVector2IsInfinite V = (XMISINF (f0 V) \<or> XMISINF (f1 V))"

definition XMVector3IsInfinite :: "XMVECTOR \<Rightarrow> bool" where
  "XMVector3IsInfinite V = (XMISINF (f0 V) \<or> XMISINF (f1 V) \<or> XMISINF (f2 V))"

definition XMVector4IsInfinite :: "XMVECTOR \<Rightarrow> bool" where
  "XMVector4IsInfinite V = (XMISINF (f0 V) \<or> XMISINF (f1 V) \<or> XMISINF (f2 V) \<or> XMISINF (f3 V))"

text \<open>
  The comparisons that return \<^verbatim>\<open>bool\<close>: all of them ask the relation of every lane of the
  width, but \<^verbatim>\<open>NotEqual\<close>, which asks it of some lane.
\<close>

definition XMVector2Equal :: "XMVECTOR \<Rightarrow> XMVECTOR \<Rightarrow> bool" where
  "XMVector2Equal V1 V2 =
     (f32_eq (f0 V1) (f0 V2) \<and> f32_eq (f1 V1) (f1 V2))"

definition XMVector2NotEqual :: "XMVECTOR \<Rightarrow> XMVECTOR \<Rightarrow> bool" where
  "XMVector2NotEqual V1 V2 =
     (f32_ne (f0 V1) (f0 V2) \<or> f32_ne (f1 V1) (f1 V2))"

definition XMVector2Less :: "XMVECTOR \<Rightarrow> XMVECTOR \<Rightarrow> bool" where
  "XMVector2Less V1 V2 =
     (f32_lt (f0 V1) (f0 V2) \<and> f32_lt (f1 V1) (f1 V2))"

definition XMVector2LessOrEqual :: "XMVECTOR \<Rightarrow> XMVECTOR \<Rightarrow> bool" where
  "XMVector2LessOrEqual V1 V2 =
     (f32_le (f0 V1) (f0 V2) \<and> f32_le (f1 V1) (f1 V2))"

definition XMVector2Greater :: "XMVECTOR \<Rightarrow> XMVECTOR \<Rightarrow> bool" where
  "XMVector2Greater V1 V2 =
     (f32_gt (f0 V1) (f0 V2) \<and> f32_gt (f1 V1) (f1 V2))"

definition XMVector2GreaterOrEqual :: "XMVECTOR \<Rightarrow> XMVECTOR \<Rightarrow> bool" where
  "XMVector2GreaterOrEqual V1 V2 =
     (f32_ge (f0 V1) (f0 V2) \<and> f32_ge (f1 V1) (f1 V2))"

definition XMVector3Equal :: "XMVECTOR \<Rightarrow> XMVECTOR \<Rightarrow> bool" where
  "XMVector3Equal V1 V2 =
     (f32_eq (f0 V1) (f0 V2) \<and> f32_eq (f1 V1) (f1 V2) \<and> f32_eq (f2 V1) (f2 V2))"

definition XMVector3NotEqual :: "XMVECTOR \<Rightarrow> XMVECTOR \<Rightarrow> bool" where
  "XMVector3NotEqual V1 V2 =
     (f32_ne (f0 V1) (f0 V2) \<or> f32_ne (f1 V1) (f1 V2) \<or> f32_ne (f2 V1) (f2 V2))"

definition XMVector3Less :: "XMVECTOR \<Rightarrow> XMVECTOR \<Rightarrow> bool" where
  "XMVector3Less V1 V2 =
     (f32_lt (f0 V1) (f0 V2) \<and> f32_lt (f1 V1) (f1 V2) \<and> f32_lt (f2 V1) (f2 V2))"

definition XMVector3LessOrEqual :: "XMVECTOR \<Rightarrow> XMVECTOR \<Rightarrow> bool" where
  "XMVector3LessOrEqual V1 V2 =
     (f32_le (f0 V1) (f0 V2) \<and> f32_le (f1 V1) (f1 V2) \<and> f32_le (f2 V1) (f2 V2))"

definition XMVector3Greater :: "XMVECTOR \<Rightarrow> XMVECTOR \<Rightarrow> bool" where
  "XMVector3Greater V1 V2 =
     (f32_gt (f0 V1) (f0 V2) \<and> f32_gt (f1 V1) (f1 V2) \<and> f32_gt (f2 V1) (f2 V2))"

definition XMVector3GreaterOrEqual :: "XMVECTOR \<Rightarrow> XMVECTOR \<Rightarrow> bool" where
  "XMVector3GreaterOrEqual V1 V2 =
     (f32_ge (f0 V1) (f0 V2) \<and> f32_ge (f1 V1) (f1 V2) \<and> f32_ge (f2 V1) (f2 V2))"

definition XMVector4Equal :: "XMVECTOR \<Rightarrow> XMVECTOR \<Rightarrow> bool" where
  "XMVector4Equal V1 V2 =
     (f32_eq (f0 V1) (f0 V2) \<and> f32_eq (f1 V1) (f1 V2) \<and>
      f32_eq (f2 V1) (f2 V2) \<and> f32_eq (f3 V1) (f3 V2))"

definition XMVector4NotEqual :: "XMVECTOR \<Rightarrow> XMVECTOR \<Rightarrow> bool" where
  "XMVector4NotEqual V1 V2 =
     (f32_ne (f0 V1) (f0 V2) \<or> f32_ne (f1 V1) (f1 V2) \<or>
      f32_ne (f2 V1) (f2 V2) \<or> f32_ne (f3 V1) (f3 V2))"

definition XMVector4Less :: "XMVECTOR \<Rightarrow> XMVECTOR \<Rightarrow> bool" where
  "XMVector4Less V1 V2 =
     (f32_lt (f0 V1) (f0 V2) \<and> f32_lt (f1 V1) (f1 V2) \<and>
      f32_lt (f2 V1) (f2 V2) \<and> f32_lt (f3 V1) (f3 V2))"

definition XMVector4LessOrEqual :: "XMVECTOR \<Rightarrow> XMVECTOR \<Rightarrow> bool" where
  "XMVector4LessOrEqual V1 V2 =
     (f32_le (f0 V1) (f0 V2) \<and> f32_le (f1 V1) (f1 V2) \<and>
      f32_le (f2 V1) (f2 V2) \<and> f32_le (f3 V1) (f3 V2))"

definition XMVector4Greater :: "XMVECTOR \<Rightarrow> XMVECTOR \<Rightarrow> bool" where
  "XMVector4Greater V1 V2 =
     (f32_gt (f0 V1) (f0 V2) \<and> f32_gt (f1 V1) (f1 V2) \<and>
      f32_gt (f2 V1) (f2 V2) \<and> f32_gt (f3 V1) (f3 V2))"

definition XMVector4GreaterOrEqual :: "XMVECTOR \<Rightarrow> XMVECTOR \<Rightarrow> bool" where
  "XMVector4GreaterOrEqual V1 V2 =
     (f32_ge (f0 V1) (f0 V2) \<and> f32_ge (f1 V1) (f1 V2) \<and>
      f32_ge (f2 V1) (f2 V2) \<and> f32_ge (f3 V1) (f3 V2))"

text \<open>Dot and cross products. A dot product and the 2D cross product fill every lane.\<close>

definition XMVector2Dot :: "XMVECTOR \<Rightarrow> XMVECTOR \<Rightarrow> XMVECTOR" where
  "XMVector2Dot V1 V2 =
     XMVectorReplicate (f32_add (f32_mul (f0 V1) (f0 V2)) (f32_mul (f1 V1) (f1 V2)))"



definition XMVector2Cross :: "XMVECTOR \<Rightarrow> XMVECTOR \<Rightarrow> XMVECTOR" where
  "XMVector2Cross V1 V2 =
     XMVectorReplicate (f32_sub (f32_mul (f0 V1) (f1 V2)) (f32_mul (f1 V1) (f0 V2)))"

definition XMVector3Cross :: "XMVECTOR \<Rightarrow> XMVECTOR \<Rightarrow> XMVECTOR" where
  "XMVector3Cross V1 V2 =
     XMVectorSet (f32_sub (f32_mul (f1 V1) (f2 V2)) (f32_mul (f2 V1) (f1 V2)))
                 (f32_sub (f32_mul (f2 V1) (f0 V2)) (f32_mul (f0 V1) (f2 V2)))
                 (f32_sub (f32_mul (f0 V1) (f1 V2)) (f32_mul (f1 V1) (f0 V2)))
                 0"


definition XM_PI :: float32 where
  "XM_PI = f32_lit 3141592654 1000000000"

definition g_XMIdentityR3 :: XMVECTOR where
  "g_XMIdentityR3 = XMVectorSet 0 0 0 (f32_lit 1 1)"

subsection \<open>Quaternions\<close>

definition XMQuaternionIdentity :: XMVECTOR where
  "XMQuaternionIdentity = g_XMIdentityR3"

definition XMQuaternionIsNaN :: "XMVECTOR \<Rightarrow> bool" where
  "XMQuaternionIsNaN Q = XMVector4IsNaN Q"

definition XMQuaternionConjugate :: "XMVECTOR \<Rightarrow> XMVECTOR" where
  "XMQuaternionConjugate Q = XMVectorSet (f32_neg (f0 Q)) (f32_neg (f1 Q)) (f32_neg (f2 Q)) (f3 Q)"

text \<open>
  \<^verbatim>\<open>XMQuaternionMultiply(Q1, Q2)\<close> is the library's product \<open>Q2 * Q1\<close> in Hamilton's sense:
  the rotation \<open>Q1\<close> followed by the rotation \<open>Q2\<close>.
\<close>

definition XMQuaternionMultiply :: "XMVECTOR \<Rightarrow> XMVECTOR \<Rightarrow> XMVECTOR" where
  "XMQuaternionMultiply Q1 Q2 =
     XMVectorSet
       (f32_sub (f32_add (f32_add (f32_mul (f3 Q2) (f0 Q1)) (f32_mul (f0 Q2) (f3 Q1)))
                         (f32_mul (f1 Q2) (f2 Q1)))
                (f32_mul (f2 Q2) (f1 Q1)))
       (f32_add (f32_add (f32_sub (f32_mul (f3 Q2) (f1 Q1)) (f32_mul (f0 Q2) (f2 Q1)))
                         (f32_mul (f1 Q2) (f3 Q1)))
                (f32_mul (f2 Q2) (f0 Q1)))
       (f32_add (f32_sub (f32_add (f32_mul (f3 Q2) (f2 Q1)) (f32_mul (f0 Q2) (f1 Q1)))
                         (f32_mul (f1 Q2) (f0 Q1)))
                (f32_mul (f2 Q2) (f3 Q1)))
       (f32_sub (f32_sub (f32_sub (f32_mul (f3 Q2) (f3 Q1)) (f32_mul (f0 Q2) (f0 Q1)))
                         (f32_mul (f1 Q2) (f1 Q1)))
                (f32_mul (f2 Q2) (f2 Q1)))"


definition XMVector3Rotate :: "XMVECTOR \<Rightarrow> XMVECTOR \<Rightarrow> XMVECTOR" where
  "XMVector3Rotate V RotationQuaternion =
     (let A = XMVectorSelect g_XMSelect1110 V g_XMSelect1110;
          Q = XMQuaternionConjugate RotationQuaternion;
          Result = XMQuaternionMultiply Q A
      in XMQuaternionMultiply Result RotationQuaternion)"

text \<open>
  \<^verbatim>\<open>XMScalarACos\<close>: the square root of \<open>1 - |Value|\<close> times a polynomial of degree 7 in
  \<open>|Value|\<close>, reflected about \<open>\<pi>/2\<close> for a negative argument.
\<close>

definition XMScalarACos :: "float32 \<Rightarrow> float32" where
  "XMScalarACos Value =
     (let nonnegative = f32_ge Value 0;
          x = fabsf Value;
          omx0 = f32_sub (f32_lit 1 1) x;
          omx = (if f32_lt omx0 0 then 0 else omx0);
          root = sqrtf omx;
          r1 = f32_add (f32_mul (f32_neg (f32_lit 12624911 10000000000)) x)
                       (f32_lit 66700901 10000000000);
          r2 = f32_sub (f32_mul r1 x) (f32_lit 170881256 10000000000);
          r3 = f32_add (f32_mul r2 x) (f32_lit 308918810 10000000000);
          r4 = f32_sub (f32_mul r3 x) (f32_lit 501743046 10000000000);
          r5 = f32_add (f32_mul r4 x) (f32_lit 889789874 10000000000);
          r6 = f32_sub (f32_mul r5 x) (f32_lit 2145988016 10000000000);
          r7 = f32_add (f32_mul r6 x) (f32_lit 15707963050 10000000000);
          result = f32_mul r7 root
      in if nonnegative then result else f32_sub XM_PI result)"

section \<open>MathSIMD.h\<close>

text \<open>
  \<^verbatim>\<open>FloatPoint2\<close>, \<^verbatim>\<open>FloatPoint3\<close>, \<^verbatim>\<open>FloatPoint4\<close> and \<^verbatim>\<open>Quaternion\<close> derive from one another
  and from \<^verbatim>\<open>XMVECTORF32\<close>: an object of any of them is the four lanes \<open>v\<close>. A member
  function takes the object first; one that changes the object returns the new lanes.
  The logical lanes of a \<^verbatim>\<open>FloatPoint2\<close> are x and y, of a \<^verbatim>\<open>FloatPoint3\<close> x, y and z, of
  a \<^verbatim>\<open>FloatPoint4\<close> and of a \<^verbatim>\<open>Quaternion\<close> all four.
\<close>

datatype error = AssertionFailed

subsection \<open>FloatPoint2 (lines 567 to 709)\<close>

definition FloatPoint2_Set :: "float32 \<Rightarrow> float32 \<Rightarrow> XMVECTOR" where
  "FloatPoint2_Set x y = XMVectorSet x y 0 0"

definition FloatPoint2_op_bool :: "XMVECTOR \<Rightarrow> bool" where
  "FloatPoint2_op_bool v = (\<not> XMVector2IsNaN v \<and> \<not> XMVector2IsInfinite v)"

definition FloatPoint2_op_not :: "XMVECTOR \<Rightarrow> bool" where
  "FloatPoint2_op_not v = (XMVector2IsNaN v \<or> XMVector2IsInfinite v)"

definition FloatPoint2_op_lt :: "XMVECTOR \<Rightarrow> XMVECTOR \<Rightarrow> bool" where
  "FloatPoint2_op_lt v rhs = XMVector2Less v rhs"

definition FloatPoint2_op_le :: "XMVECTOR \<Rightarrow> XMVECTOR \<Rightarrow> bool" where
  "FloatPoint2_op_le v rhs = XMVector2LessOrEqual v rhs"

definition FloatPoint2_op_gt :: "XMVECTOR \<Rightarrow> XMVECTOR \<Rightarrow> bool" where
  "FloatPoint2_op_gt v rhs = XMVector2Greater v rhs"

definition FloatPoint2_op_ge :: "XMVECTOR \<Rightarrow> XMVECTOR \<Rightarrow> bool" where
  "FloatPoint2_op_ge v rhs = XMVector2GreaterOrEqual v rhs"

definition FloatPoint2_op_eq :: "XMVECTOR \<Rightarrow> XMVECTOR \<Rightarrow> bool" where
  "FloatPoint2_op_eq v rhs = XMVector2Equal v rhs"

definition FloatPoint2_op_ne :: "XMVECTOR \<Rightarrow> XMVECTOR \<Rightarrow> bool" where
  "FloatPoint2_op_ne v rhs = XMVector2NotEqual v rhs"

text \<open>
  \<^verbatim>\<open>SetZeroIfNear\<close> (line 676) computes the mask and the selection, and leaves the
  selection unused: nothing is assigned to \<open>v\<close>.
\<close>

definition FloatPoint2_SetZeroIfNear :: "XMVECTOR \<Rightarrow> float32 \<Rightarrow> XMVECTOR" where
  "FloatPoint2_SetZeroIfNear v epsilon =
     (let mask = XMVectorLess (XMVectorAbs v) (XMVectorReplicate epsilon);
          unused = XMVectorSelect v XMVectorZero mask
      in v)"

definition FloatPoint2_IsZero :: "XMVECTOR \<Rightarrow> bool" where
  "FloatPoint2_IsZero v = XMVector2Equal v g_XMZero"

text \<open>
  The instance \<^verbatim>\<open>DotProduct\<close> (line 694) asserts that the result is not a NaN; the
  assertion is modelled as it is in a build that keeps assertions.
\<close>

definition FloatPoint2_DotProduct :: "XMVECTOR \<Rightarrow> XMVECTOR \<Rightarrow> error + float32" where
  "FloatPoint2_DotProduct v vecIn =
     (let d = XMVectorGetX (XMVector2Dot v vecIn)
      in if f32_is_nan d then Inl AssertionFailed else Inr d)"

definition FloatPoint2_CrossProduct :: "XMVECTOR \<Rightarrow> XMVECTOR \<Rightarrow> XMVECTOR" where
  "FloatPoint2_CrossProduct v vecIn = XMVector3Cross v vecIn"

definition FloatPoint2_DotProduct_static :: "XMVECTOR \<Rightarrow> XMVECTOR \<Rightarrow> XMVECTOR" where
  "FloatPoint2_DotProduct_static vec1In vec2In = XMVector2Dot vec1In vec2In"

definition FloatPoint2_CrossProduct_static :: "XMVECTOR \<Rightarrow> XMVECTOR \<Rightarrow> XMVECTOR" where
  "FloatPoint2_CrossProduct_static vec1In vec2In = XMVector2Cross vec1In vec2In"

subsection \<open>FloatPoint3 (lines 714 to 836)\<close>

text \<open>The constructor from an \<^verbatim>\<open>XMVECTOR\<close> (line 736) clears the lane w.\<close>

definition FloatPoint3_of_XMVECTOR :: "XMVECTOR \<Rightarrow> XMVECTOR" where
  "FloatPoint3_of_XMVECTOR vecIn = XMVectorSetW vecIn 0"

definition FloatPoint3_Set :: "float32 \<Rightarrow> float32 \<Rightarrow> float32 \<Rightarrow> XMVECTOR" where
  "FloatPoint3_Set x y z = XMVectorSet x y z 0"

definition FloatPoint3_op_bool :: "XMVECTOR \<Rightarrow> bool" where
  "FloatPoint3_op_bool v = (\<not> XMVector3IsNaN v \<and> \<not> XMVector3IsInfinite v)"

definition FloatPoint3_op_not :: "XMVECTOR \<Rightarrow> bool" where
  "FloatPoint3_op_not v = (XMVector3IsNaN v \<or> XMVector3IsInfinite v)"

definition FloatPoint3_op_lt :: "XMVECTOR \<Rightarrow> XMVECTOR \<Rightarrow> bool" where
  "FloatPoint3_op_lt v rhs = XMVector3Less v rhs"

definition FloatPoint3_op_le :: "XMVECTOR \<Rightarrow> XMVECTOR \<Rightarrow> bool" where
  "FloatPoint3_op_le v rhs = XMVector3LessOrEqual v rhs"

definition FloatPoint3_op_gt :: "XMVECTOR \<Rightarrow> XMVECTOR \<Rightarrow> bool" where
  "FloatPoint3_op_gt v rhs = XMVector3Greater v rhs"

definition FloatPoint3_op_ge :: "XMVECTOR \<Rightarrow> XMVECTOR \<Rightarrow> bool" where
  "FloatPoint3_op_ge v rhs = XMVector3GreaterOrEqual v rhs"

definition FloatPoint3_op_eq :: "XMVECTOR \<Rightarrow> XMVECTOR \<Rightarrow> bool" where
  "FloatPoint3_op_eq v rhs = XMVector3Equal v rhs"

definition FloatPoint3_op_ne :: "XMVECTOR \<Rightarrow> XMVECTOR \<Rightarrow> bool" where
  "FloatPoint3_op_ne v rhs = XMVector3NotEqual v rhs"

text \<open>\<^verbatim>\<open>IsZero\<close> (line 816) calls the two-lane comparison.\<close>

definition FloatPoint3_IsZero :: "XMVECTOR \<Rightarrow> bool" where
  "FloatPoint3_IsZero v = XMVector2Equal v g_XMZero"

subsection \<open>FloatPoint4 (lines 841 to 967)\<close>

definition FloatPoint4_Set :: "float32 \<Rightarrow> float32 \<Rightarrow> float32 \<Rightarrow> float32 \<Rightarrow> XMVECTOR" where
  "FloatPoint4_Set x y z w = XMVectorSet x y z w"

definition FloatPoint4_GetW :: "XMVECTOR \<Rightarrow> float32" where
  "FloatPoint4_GetW v = XMVectorGetW v"

definition FloatPoint4_op_bool :: "XMVECTOR \<Rightarrow> bool" where
  "FloatPoint4_op_bool v = (\<not> XMVector4IsNaN v \<and> \<not> XMVector4IsInfinite v)"

definition FloatPoint4_op_not :: "XMVECTOR \<Rightarrow> bool" where
  "FloatPoint4_op_not v = (XMVector4IsNaN v \<or> XMVector4IsInfinite v)"

definition FloatPoint4_op_lt :: "XMVECTOR \<Rightarrow> XMVECTOR \<Rightarrow> bool" where
  "FloatPoint4_op_lt v rhs = XMVector4Less v rhs"

definition FloatPoint4_op_le :: "XMVECTOR \<Rightarrow> XMVECTOR \<Rightarrow> bool" where
  "FloatPoint4_op_le v rhs = XMVector4LessOrEqual v rhs"

definition FloatPoint4_op_gt :: "XMVECTOR \<Rightarrow> XMVECTOR \<Rightarrow> bool" where
  "FloatPoint4_op_gt v rhs = XMVector4Greater v rhs"

definition FloatPoint4_op_ge :: "XMVECTOR \<Rightarrow> XMVECTOR \<Rightarrow> bool" where
  "FloatPoint4_op_ge v rhs = XMVector4GreaterOrEqual v rhs"

definition FloatPoint4_op_eq :: "XMVECTOR \<Rightarrow> XMVECTOR \<Rightarrow> bool" where
  "FloatPoint4_op_eq v rhs = XMVector4Equal v rhs"

definition FloatPoint4_op_ne :: "XMVECTOR \<Rightarrow> XMVECTOR \<Rightarrow> bool" where
  "FloatPoint4_op_ne v rhs = XMVector4NotEqual v rhs"


text \<open>\<^verbatim>\<open>IsZero\<close> (line 948) calls the two-lane comparison as well.\<close>

definition FloatPoint4_IsZero :: "XMVECTOR \<Rightarrow> bool" where
  "FloatPoint4_IsZero v = XMVector2Equal v g_XMZero"

subsection \<open>Quaternion (lines 995 to 1059)\<close>

definition Quaternion_Validate :: "XMVECTOR \<Rightarrow> XMVECTOR" where
  "Quaternion_Validate v = (if XMQuaternionIsNaN v then XMQuaternionIdentity else v)"



definition Quaternion_op_neg :: "XMVECTOR \<Rightarrow> XMVECTOR" where
  "Quaternion_op_neg v = XMVectorNegate v"

definition Quaternion_op_mul :: "XMVECTOR \<Rightarrow> XMVECTOR \<Rightarrow> XMVECTOR" where
  "Quaternion_op_mul v rhs = XMQuaternionMultiply v rhs"








text \<open>\<^verbatim>\<open>operator* (const FloatPoint3 rhs)\<close>, line 1023: the rotation of a vector.\<close>

definition Quaternion_op_mul_FloatPoint3 :: "XMVECTOR \<Rightarrow> XMVECTOR \<Rightarrow> XMVECTOR" where
  "Quaternion_op_mul_FloatPoint3 v rhs = FloatPoint3_of_XMVECTOR (XMVector3Rotate rhs v)"

text \<open>
  The conversions of lines 1030 and 1031; \<^verbatim>\<open>abs\<close> is the overload for \<^verbatim>\<open>float\<close>, and the
  constant is the literal \<^verbatim>\<open>0.999998f\<close>.
\<close>

definition Quaternion_op_bool :: "XMVECTOR \<Rightarrow> bool" where
  "Quaternion_op_bool v = f32_lt (fabsf (FloatPoint4_GetW v)) (f32_lit 999998 1000000)"

definition Quaternion_op_not :: "XMVECTOR \<Rightarrow> bool" where
  "Quaternion_op_not v = f32_ge (fabsf (FloatPoint4_GetW v)) (f32_lit 999998 1000000)"

definition Quaternion_GetAngleQuaternion :: "XMVECTOR \<Rightarrow> float32" where
  "Quaternion_GetAngleQuaternion v = f32_mul (f32_lit 2 1) (XMScalarACos (FloatPoint4_GetW v))"

section \<open>Facts about the model\<close>

subsection \<open>The masks of the source and the fields\<close>

lemma mask_frac: "(0x7FFFFF :: 32 word) = mask 23"
  by (simp add: mask_eq_exp_minus_1)

lemma mask_abs: "(0x7FFFFFFF :: 32 word) = mask 31"
  by (simp add: mask_eq_exp_minus_1)

lemma mask_expo: "(0x7F800000 :: 32 word) = push_bit 23 (mask 8)"
  by (simp add: mask_eq_exp_minus_1 push_bit_eq_mult)

lemma and_mask_frac: "(a AND 0x7FFFFF) = take_bit 23 (a :: 32 word)"
  unfolding mask_frac by (simp add: take_bit_eq_mask)

lemma and_mask_abs: "(a AND 0x7FFFFFFF) = take_bit 31 (a :: 32 word)"
  unfolding mask_abs by (simp add: take_bit_eq_mask)

lemma and_mask_expo:
  "((a :: 32 word) AND 0x7F800000) = push_bit 23 (take_bit 8 (drop_bit 23 a))"
  unfolding mask_expo by (rule bit_eqI) (auto simp add: bit_simps)

lemma drop_push_expo:
  "drop_bit 23 (push_bit 23 (take_bit 8 (y :: 32 word))) = take_bit 8 y"
  by (rule bit_eqI) (auto simp add: bit_simps)

lemma unat_eq_255: "unat (y :: 32 word) = 255 \<longleftrightarrow> y = 255"
  by (simp add: word_unat_eq_iff)

lemma expo_all_ones: "((a :: 32 word) AND 0x7F800000) = 0x7F800000 \<longleftrightarrow> f32_expo a = 255"
proof
  assume h: "a AND 0x7F800000 = 0x7F800000"
  have "take_bit 8 (drop_bit 23 a) = drop_bit 23 (a AND 0x7F800000)"
    unfolding and_mask_expo drop_push_expo ..
  also have "\<dots> = 255"
    unfolding h by simp
  finally show "f32_expo a = 255"
    by (simp add: f32_expo_def)
next
  assume "f32_expo a = 255"
  then have "take_bit 8 (drop_bit 23 a) = 255"
    by (simp add: f32_expo_def unat_eq_255)
  then show "a AND 0x7F800000 = 0x7F800000"
    unfolding and_mask_expo by simp
qed

lemma frac_all_zeros: "((a :: 32 word) AND 0x7FFFFF) = 0 \<longleftrightarrow> f32_frac a = 0"
  unfolding and_mask_frac f32_frac_def by (simp add: unsigned_eq_0_iff)

lemma take_31_split:
  "take_bit 31 (a :: 32 word) = push_bit 23 (take_bit 8 (drop_bit 23 a)) OR take_bit 23 a"
  by (rule bit_eqI) (auto simp add: bit_simps)

lemma take_23_of_31: "take_bit 23 (take_bit 31 (a :: 32 word)) = take_bit 23 a"
  by (rule bit_eqI) (auto simp add: bit_simps)

lemma drop_23_of_31: "drop_bit 23 (take_bit 31 (a :: 32 word)) = take_bit 8 (drop_bit 23 a)"
  by (rule bit_eqI) (auto simp add: bit_simps)

lemma XMISNAN_iff: "XMISNAN a = f32_is_nan a"
  by (simp add: XMISNAN_def f32_is_nan_def expo_all_ones frac_all_zeros)

lemma XMISINF_iff: "XMISINF a = f32_is_inf a"
proof
  assume "XMISINF a"
  then have h: "take_bit 31 a = 0x7F800000"
    by (simp add: XMISINF_def and_mask_abs)
  have "take_bit 23 a = take_bit 23 (take_bit 31 a)"
    unfolding take_23_of_31 ..
  also have "\<dots> = 0"
    unfolding h by simp
  finally have 1: "f32_frac a = 0"
    by (simp add: f32_frac_def)
  have "take_bit 8 (drop_bit 23 a) = drop_bit 23 (take_bit 31 a)"
    unfolding drop_23_of_31 ..
  also have "\<dots> = 255"
    unfolding h by simp
  finally have 2: "f32_expo a = 255"
    by (simp add: f32_expo_def)
  show "f32_is_inf a"
    using 1 2 by (simp add: f32_is_inf_def)
next
  assume "f32_is_inf a"
  then have 1: "take_bit 8 (drop_bit 23 a) = 255" and 2: "take_bit 23 a = 0"
    by (simp_all add: f32_is_inf_def f32_expo_def f32_frac_def unat_eq_255 unsigned_eq_0_iff)
  have "take_bit 31 a = 0x7F800000"
    unfolding take_31_split 1 2 by simp
  then show "XMISINF a"
    by (simp add: XMISINF_def and_mask_abs)
qed

subsection \<open>The absolute value\<close>

lemma fabsf_expo: "f32_expo (fabsf a) = f32_expo a"
  unfolding fabsf_def mask_abs f32_expo_def
  by (rule arg_cong [where f = unat], rule bit_eqI) (auto simp add: bit_simps)

lemma fabsf_frac: "f32_frac (fabsf a) = f32_frac a"
  unfolding fabsf_def mask_abs f32_frac_def
  by (rule arg_cong [where f = unat], rule bit_eqI) (auto simp add: bit_simps)

lemma fabsf_sign: "\<not> f32_sign (fabsf a)"
  unfolding fabsf_def mask_abs f32_sign_def by (simp add: bit_simps)

lemma fabsf_is_nan: "f32_is_nan (fabsf a) = f32_is_nan a"
  by (simp add: f32_is_nan_def fabsf_expo fabsf_frac)

lemma fabsf_mant: "f32_mant (fabsf a) = \<bar>f32_mant a\<bar>"
  by (simp add: f32_mant_def fabsf_expo fabsf_frac fabsf_sign)

lemma fabsf_exp2: "f32_exp2 (fabsf a) = f32_exp2 a"
  by (simp add: f32_exp2_def fabsf_expo)

lemma fabsf_valof: "f32_valof (fabsf a) = \<bar>f32_valof a\<bar>"
  by (simp add: f32_valof_def fabsf_mant fabsf_exp2 abs_mult)

subsection \<open>Equality with zero\<close>

lemma f32_mant_eq_0: "f32_mant a = 0 \<longleftrightarrow> f32_is_zero a"
  by (auto simp add: f32_mant_def f32_is_zero_def)

lemma f32_valof_eq_0: "f32_valof a = 0 \<longleftrightarrow> f32_is_zero a"
  by (simp add: f32_valof_def f32_mant_eq_0)

lemma f32_zero_fields: "f32_expo 0 = 0" "f32_frac 0 = 0" "\<not> f32_sign 0"
  by (simp_all add: f32_expo_def f32_frac_def f32_sign_def)

lemma f32_valof_zero: "f32_valof 0 = 0"
  by (simp add: f32_valof_def f32_mant_def f32_zero_fields)

lemma f32_eq_zero: "f32_eq a 0 = f32_is_zero a"
  by (auto simp add: f32_eq_def f32_valof_eq_0 f32_valof_zero f32_is_nan_def f32_is_zero_def
      f32_zero_fields)

subsection \<open>The fields of the floats that the examples meet\<close>

lemma f32_sign_table:
  "f32_sign 0 = False"
  "f32_sign 0x00000001 = False"
  "f32_sign 0x00000002 = False"
  "f32_sign 0x00000003 = False"
  "f32_sign 0x007FFFFF = False"
  "f32_sign 0x00800000 = False"
  "f32_sign 0x34000000 = False"
  "f32_sign 0x3727C5AC = False"
  "f32_sign 0x3851B717 = False"
  "f32_sign 0x3AA57A2C = False"
  "f32_sign 0x3BB1323A = False"
  "f32_sign 0x3BDA90C5 = False"
  "f32_sign 0x3C23D70B = False"
  "f32_sign 0x3C8BFC66 = False"
  "f32_sign 0x3C9D6120 = False"
  "f32_sign 0x3CFD10F8 = False"
  "f32_sign 0x3D4D8392 = False"
  "f32_sign 0x3D6DA23A = False"
  "f32_sign 0x3DB63A9E = False"
  "f32_sign 0x3DCCCCCD = False"
  "f32_sign 0x3E4CCCCD = False"
  "f32_sign 0x3E5BBFCA = False"
  "f32_sign 0x3E800000 = False"
  "f32_sign 0x3E99999A = False"
  "f32_sign 0x3EAAAAAB = False"
  "f32_sign 0x3F000000 = False"
  "f32_sign 0x3F400000 = False"
  "f32_sign 0x3F7FFFDE = False"
  "f32_sign 0x3F800000 = False"
  "f32_sign 0x3FB504F2 = False"
  "f32_sign 0x3FB504F3 = False"
  "f32_sign 0x3FC90FDA = False"
  "f32_sign 0x40000000 = False"
  "f32_sign 0x40400000 = False"
  "f32_sign 0x40490FDB = False"
  "f32_sign 0x40A00000 = False"
  "f32_sign 0x40C00000 = False"
  "f32_sign 0x40C90FDB = False"
  "f32_sign 0x41200000 = False"
  "f32_sign 0x73000000 = False"
  "f32_sign 0x7F7FFFFF = False"
  "f32_sign 0x7F800000 = False"
  "f32_sign 0x7FC00000 = False"
  "f32_sign 0x80000000 = True"
  "f32_sign 0xBAA57A2C = True"
  "f32_sign 0xBC3F5FAF = True"
  "f32_sign 0xBC8BFC66 = True"
  "f32_sign 0xBCFDA604 = True"
  "f32_sign 0xBD4D8392 = True"
  "f32_sign 0xBE20573C = True"
  "f32_sign 0xBE5BBFCA = True"
  "f32_sign 0xBE800000 = True"
  "f32_sign 0xBF000000 = True"
  "f32_sign 0xBF400000 = True"
  "f32_sign 0xBF800000 = True"
  "f32_sign 0xFF800000 = True"
  "f32_sign 0xFFC00000 = True"
  by (simp_all add: f32_sign_def)

lemma f32_expo_table:
  "f32_expo 0 = 0"
  "f32_expo 0x00000001 = 0"
  "f32_expo 0x00000002 = 0"
  "f32_expo 0x00000003 = 0"
  "f32_expo 0x007FFFFF = 0"
  "f32_expo 0x00800000 = 1"
  "f32_expo 0x34000000 = 104"
  "f32_expo 0x3727C5AC = 110"
  "f32_expo 0x3851B717 = 112"
  "f32_expo 0x3AA57A2C = 117"
  "f32_expo 0x3BB1323A = 119"
  "f32_expo 0x3BDA90C5 = 119"
  "f32_expo 0x3C23D70B = 120"
  "f32_expo 0x3C8BFC66 = 121"
  "f32_expo 0x3C9D6120 = 121"
  "f32_expo 0x3CFD10F8 = 121"
  "f32_expo 0x3D4D8392 = 122"
  "f32_expo 0x3D6DA23A = 122"
  "f32_expo 0x3DB63A9E = 123"
  "f32_expo 0x3DCCCCCD = 123"
  "f32_expo 0x3E4CCCCD = 124"
  "f32_expo 0x3E5BBFCA = 124"
  "f32_expo 0x3E800000 = 125"
  "f32_expo 0x3E99999A = 125"
  "f32_expo 0x3EAAAAAB = 125"
  "f32_expo 0x3F000000 = 126"
  "f32_expo 0x3F400000 = 126"
  "f32_expo 0x3F7FFFDE = 126"
  "f32_expo 0x3F800000 = 127"
  "f32_expo 0x3FB504F2 = 127"
  "f32_expo 0x3FB504F3 = 127"
  "f32_expo 0x3FC90FDA = 127"
  "f32_expo 0x40000000 = 128"
  "f32_expo 0x40400000 = 128"
  "f32_expo 0x40490FDB = 128"
  "f32_expo 0x40A00000 = 129"
  "f32_expo 0x40C00000 = 129"
  "f32_expo 0x40C90FDB = 129"
  "f32_expo 0x41200000 = 130"
  "f32_expo 0x73000000 = 230"
  "f32_expo 0x7F7FFFFF = 254"
  "f32_expo 0x7F800000 = 255"
  "f32_expo 0x7FC00000 = 255"
  "f32_expo 0x80000000 = 0"
  "f32_expo 0xBAA57A2C = 117"
  "f32_expo 0xBC3F5FAF = 120"
  "f32_expo 0xBC8BFC66 = 121"
  "f32_expo 0xBCFDA604 = 121"
  "f32_expo 0xBD4D8392 = 122"
  "f32_expo 0xBE20573C = 124"
  "f32_expo 0xBE5BBFCA = 124"
  "f32_expo 0xBE800000 = 125"
  "f32_expo 0xBF000000 = 126"
  "f32_expo 0xBF400000 = 126"
  "f32_expo 0xBF800000 = 127"
  "f32_expo 0xFF800000 = 255"
  "f32_expo 0xFFC00000 = 255"
  by (simp_all add: f32_expo_def)

lemma f32_frac_table:
  "f32_frac 0 = 0"
  "f32_frac 0x00000001 = 1"
  "f32_frac 0x00000002 = 2"
  "f32_frac 0x00000003 = 3"
  "f32_frac 0x007FFFFF = 8388607"
  "f32_frac 0x00800000 = 0"
  "f32_frac 0x34000000 = 0"
  "f32_frac 0x3727C5AC = 2606508"
  "f32_frac 0x3851B717 = 5355287"
  "f32_frac 0x3AA57A2C = 2456108"
  "f32_frac 0x3BB1323A = 3224122"
  "f32_frac 0x3BDA90C5 = 5935301"
  "f32_frac 0x3C23D70B = 2348811"
  "f32_frac 0x3C8BFC66 = 785510"
  "f32_frac 0x3C9D6120 = 1925408"
  "f32_frac 0x3CFD10F8 = 8196344"
  "f32_frac 0x3D4D8392 = 5079954"
  "f32_frac 0x3D6DA23A = 7184954"
  "f32_frac 0x3DB63A9E = 3553950"
  "f32_frac 0x3DCCCCCD = 5033165"
  "f32_frac 0x3E4CCCCD = 5033165"
  "f32_frac 0x3E5BBFCA = 6012874"
  "f32_frac 0x3E800000 = 0"
  "f32_frac 0x3E99999A = 1677722"
  "f32_frac 0x3EAAAAAB = 2796203"
  "f32_frac 0x3F000000 = 0"
  "f32_frac 0x3F400000 = 4194304"
  "f32_frac 0x3F7FFFDE = 8388574"
  "f32_frac 0x3F800000 = 0"
  "f32_frac 0x3FB504F2 = 3474674"
  "f32_frac 0x3FB504F3 = 3474675"
  "f32_frac 0x3FC90FDA = 4788186"
  "f32_frac 0x40000000 = 0"
  "f32_frac 0x40400000 = 4194304"
  "f32_frac 0x40490FDB = 4788187"
  "f32_frac 0x40A00000 = 2097152"
  "f32_frac 0x40C00000 = 4194304"
  "f32_frac 0x40C90FDB = 4788187"
  "f32_frac 0x41200000 = 2097152"
  "f32_frac 0x73000000 = 0"
  "f32_frac 0x7F7FFFFF = 8388607"
  "f32_frac 0x7F800000 = 0"
  "f32_frac 0x7FC00000 = 4194304"
  "f32_frac 0x80000000 = 0"
  "f32_frac 0xBAA57A2C = 2456108"
  "f32_frac 0xBC3F5FAF = 4153263"
  "f32_frac 0xBC8BFC66 = 785510"
  "f32_frac 0xBCFDA604 = 8234500"
  "f32_frac 0xBD4D8392 = 5079954"
  "f32_frac 0xBE20573C = 2119484"
  "f32_frac 0xBE5BBFCA = 6012874"
  "f32_frac 0xBE800000 = 0"
  "f32_frac 0xBF000000 = 0"
  "f32_frac 0xBF400000 = 4194304"
  "f32_frac 0xBF800000 = 0"
  "f32_frac 0xFF800000 = 0"
  "f32_frac 0xFFC00000 = 4194304"
  by (simp_all add: f32_frac_def)

subsection \<open>The literals of the source\<close>

lemmas f32_rounding =
  nbits.simps rne_pick_def rne_div_def binade_from_def f32_binade_def f32_encode_def
  f32_round_at_def f32_round_def f32_lit_def

lemma f32_lit_values:
  "f32_lit 1 1 = 0x3F800000"
  "f32_lit 2 1 = 0x40000000"
  "f32_lit 3 1 = 0x40400000"
  "f32_lit 5 1 = 0x40A00000"
  "f32_lit 6 1 = 0x40C00000"
  "f32_lit 10 1 = 0x41200000"
  "f32_lit 1 2 = 0x3F000000"
  "f32_lit 1 100000 = 0x3727C5AC"
  "f32_lit 5 100000 = 0x3851B717"
  "f32_lit 999998 1000000 = 0x3F7FFFDE"
  "f32_lit 3141592654 1000000000 = 0x40490FDB"
  "f32_lit 1192092896 10000000000000000 = 0x34000000"
  by (simp_all add: f32_rounding)

lemma XMScalarACos_coefficients:
  "f32_lit 12624911 10000000000 = 0x3AA57A2C"
  "f32_lit 66700901 10000000000 = 0x3BDA90C5"
  "f32_lit 170881256 10000000000 = 0x3C8BFC66"
  "f32_lit 308918810 10000000000 = 0x3CFD10F8"
  "f32_lit 501743046 10000000000 = 0x3D4D8392"
  "f32_lit 889789874 10000000000 = 0x3DB63A9E"
  "f32_lit 2145988016 10000000000 = 0x3E5BBFCA"
  "f32_lit 15707963050 10000000000 = 0x3FC90FDA"
  by (simp_all add: f32_rounding)

lemmas f32_classes = f32_is_nan_def f32_is_inf_def f32_is_zero_def f32_mant_def f32_exp2_def

lemmas f32_tables = f32_sign_table f32_expo_table f32_frac_table

lemmas f32_arith =
  f32_add_def f32_sum_at_def f32_sub_def f32_mul_def f32_div_def f32_neg_def f32_pack_def
  f32_with_sign_def f32_inf_def f32_default_nan_def f32_quiet_def

lemmas f32_compare =
  f32_lt_def f32_le_def f32_gt_def f32_ge_def f32_eq_def f32_ne_def f32_valof_def

lemmas XMVECTOR_defs =
  XMVectorSet_def XMVectorZero_def g_XMZero_def XMVectorReplicate_def XMVectorGetX_def
  XMVectorGetY_def XMVectorGetZ_def XMVectorGetW_def XMVectorSetW_def lanes1_def lanes2_def

subsection \<open>Checks of the arithmetic against known results\<close>

lemmas f32_eval = f32_tables f32_classes f32_arith f32_rounding

text \<open>
  \<open>0.1f\<close>, \<open>0.1f * 0.1f\<close>, \<open>0.1f + 0.2f\<close>, \<open>1.0f / 3.0f\<close> and the root of 2; the largest
  float plus half a unit of its last place, a tie that goes to the infinity; the
  subnormals at the bottom.
\<close>

lemma f32_arithmetic_checks:
  "f32_lit 1 10 = 0x3DCCCCCD"
  "f32_lit 2 10 = 0x3E4CCCCD"
  "f32_mul 0x3DCCCCCD 0x3DCCCCCD = 0x3C23D70B"
  "f32_add 0x3DCCCCCD 0x3E4CCCCD = 0x3E99999A"
  "f32_div 0x3F800000 0x40400000 = 0x3EAAAAAB"
  "sqrtf 0x40000000 = 0x3FB504F3"
  "f32_add 0x7F7FFFFF 0x73000000 = 0x7F800000"
  "f32_mul 0x00000003 0x3F000000 = 0x00000002"
  "f32_mul 0x00000001 0x3F000000 = 0"
  "f32_add 0x007FFFFF 0x00000001 = 0x00800000"
  "f32_sub 0x3F800000 0x3F800000 = 0"
  "f32_add 0x80000000 0x80000000 = 0x80000000"
  "f32_div 0xBF800000 0 = 0xFF800000"
  by (simp_all add: f32_eval sqrtf_def f32_sqrt_of_def sqrt_sticky_def isqrt.simps isqrt_step_def)

section \<open>Properties of MathSIMD.h\<close>

subsection \<open>IsZero\<close>

lemma XMVector2Equal_zero:
  "XMVector2Equal v g_XMZero \<longleftrightarrow> f32_is_zero (f0 v) \<and> f32_is_zero (f1 v)"
  by (simp add: XMVector2Equal_def g_XMZero_def XMVectorSet_def f32_eq_zero)

lemma FloatPoint2_IsZero_iff:
  "FloatPoint2_IsZero v \<longleftrightarrow> f32_is_zero (f0 v) \<and> f32_is_zero (f1 v)"
  by (simp add: FloatPoint2_IsZero_def XMVector2Equal_zero)

lemma FloatPoint3_IsZero_iff:
  "FloatPoint3_IsZero v \<longleftrightarrow> f32_is_zero (f0 v) \<and> f32_is_zero (f1 v)"
  by (simp add: FloatPoint3_IsZero_def XMVector2Equal_zero)

lemma FloatPoint4_IsZero_iff:
  "FloatPoint4_IsZero v \<longleftrightarrow> f32_is_zero (f0 v) \<and> f32_is_zero (f1 v)"
  by (simp add: FloatPoint4_IsZero_def XMVector2Equal_zero)

text \<open>
  C1. \<^verbatim>\<open>IsZero()\<close> is to be true exactly of the zero vector, false as soon as a logical
  lane is not zero, z and w included. For \<^verbatim>\<open>FloatPoint2\<close> it is. \<^verbatim>\<open>FloatPoint3::IsZero\<close>
  and \<^verbatim>\<open>FloatPoint4::IsZero\<close> compare the lanes x and y only: the vectors (0, 0, 1) and
  (0, 0, 0, 1) are reported zero.
\<close>

theorem C1_IsZero_ignores_z_and_w:
  "FloatPoint3_IsZero (FloatPoint3_Set 0 0 (f32_lit 1 1)) \<and>
   f32_valof (f2 (FloatPoint3_Set 0 0 (f32_lit 1 1))) = 1 \<and>
   FloatPoint4_IsZero (FloatPoint4_Set 0 0 0 (f32_lit 1 1)) \<and>
   f32_valof (f3 (FloatPoint4_Set 0 0 0 (f32_lit 1 1))) = 1"
  unfolding f32_lit_values
  by (simp add: FloatPoint3_IsZero_iff FloatPoint4_IsZero_iff FloatPoint3_Set_def
      FloatPoint4_Set_def XMVectorSet_def f32_is_zero_def f32_zero_fields
      f32_valof_def f32_mant_def f32_exp2_def f32_tables)

subsection \<open>SetZeroIfNear\<close>

lemma FloatPoint2_SetZeroIfNear_id: "FloatPoint2_SetZeroIfNear v epsilon = v"
  by (simp add: FloatPoint2_SetZeroIfNear_def)

text \<open>
  C2. After \<^verbatim>\<open>SetZeroIfNear(e)\<close> every lane below \<open>e\<close> in absolute value is to be zero.
  The function changes no lane. At \<open>v = (0.00001, 1)\<close> and \<open>e = 0.00005\<close> the lane x
  is below \<open>e\<close> and is not zero afterwards; the selection that the function computes and
  drops is \<open>(0, 1)\<close>.
\<close>

theorem C2_SetZeroIfNear_leaves_near_zero_lane:
  "FloatPoint2_SetZeroIfNear (FloatPoint2_Set (f32_lit 1 100000) (f32_lit 1 1)) (f32_lit 5 100000)
     = FloatPoint2_Set (f32_lit 1 100000) (f32_lit 1 1) \<and>
   f32_lt (fabsf (f32_lit 1 100000)) (f32_lit 5 100000) \<and>
   \<not> f32_is_zero (f32_lit 1 100000) \<and>
   XMVectorSelect (FloatPoint2_Set (f32_lit 1 100000) (f32_lit 1 1)) XMVectorZero
     (XMVectorLess (XMVectorAbs (FloatPoint2_Set (f32_lit 1 100000) (f32_lit 1 1)))
                   (XMVectorReplicate (f32_lit 5 100000)))
     = FloatPoint2_Set 0 (f32_lit 1 1)"
  unfolding f32_lit_values
  by (simp add: FloatPoint2_SetZeroIfNear_id FloatPoint2_Set_def XMVECTOR_defs XMVectorLess_def
      XMVectorAbs_def XMVectorSelect_def f32_lt_def fabsf_expo fabsf_frac fabsf_sign
      f32_valof_def f32_classes f32_tables f32_zero_fields)

subsection \<open>Validity\<close>

lemma XMVectorIsNaN_iff:
  "XMVector2IsNaN v \<longleftrightarrow> f32_is_nan (f0 v) \<or> f32_is_nan (f1 v)"
  "XMVector3IsNaN v \<longleftrightarrow> f32_is_nan (f0 v) \<or> f32_is_nan (f1 v) \<or> f32_is_nan (f2 v)"
  "XMVector4IsNaN v \<longleftrightarrow>
     f32_is_nan (f0 v) \<or> f32_is_nan (f1 v) \<or> f32_is_nan (f2 v) \<or> f32_is_nan (f3 v)"
  by (simp_all add: XMVector2IsNaN_def XMVector3IsNaN_def XMVector4IsNaN_def XMISNAN_iff)

lemma XMVectorIsInfinite_iff:
  "XMVector2IsInfinite v \<longleftrightarrow> f32_is_inf (f0 v) \<or> f32_is_inf (f1 v)"
  "XMVector3IsInfinite v \<longleftrightarrow> f32_is_inf (f0 v) \<or> f32_is_inf (f1 v) \<or> f32_is_inf (f2 v)"
  "XMVector4IsInfinite v \<longleftrightarrow>
     f32_is_inf (f0 v) \<or> f32_is_inf (f1 v) \<or> f32_is_inf (f2 v) \<or> f32_is_inf (f3 v)"
  by (simp_all add: XMVector2IsInfinite_def XMVector3IsInfinite_def XMVector4IsInfinite_def
      XMISINF_iff)

text \<open>
  C5. The conversion to \<^verbatim>\<open>bool\<close> of a \<^verbatim>\<open>FloatPoint2\<close>, \<^verbatim>\<open>FloatPoint3\<close> or \<^verbatim>\<open>FloatPoint4\<close> is
  true exactly when no logical lane is a NaN and none is an infinity, and \<^verbatim>\<open>operator!\<close> is
  its negation; \<open>(1, \<infinity>)\<close> is invalid and \<open>(1, 2)\<close> is valid.
\<close>

theorem C5_bool_is_validity:
  "FloatPoint2_op_bool v =
     (\<not> f32_is_nan (f0 v) \<and> \<not> f32_is_nan (f1 v) \<and>
      \<not> f32_is_inf (f0 v) \<and> \<not> f32_is_inf (f1 v)) \<and>
   FloatPoint2_op_not v = (\<not> FloatPoint2_op_bool v) \<and>
   FloatPoint3_op_bool v =
     (\<not> f32_is_nan (f0 v) \<and> \<not> f32_is_nan (f1 v) \<and> \<not> f32_is_nan (f2 v) \<and>
      \<not> f32_is_inf (f0 v) \<and> \<not> f32_is_inf (f1 v) \<and> \<not> f32_is_inf (f2 v)) \<and>
   FloatPoint3_op_not v = (\<not> FloatPoint3_op_bool v) \<and>
   FloatPoint4_op_bool v =
     (\<not> f32_is_nan (f0 v) \<and> \<not> f32_is_nan (f1 v) \<and> \<not> f32_is_nan (f2 v) \<and>
      \<not> f32_is_nan (f3 v) \<and>
      \<not> f32_is_inf (f0 v) \<and> \<not> f32_is_inf (f1 v) \<and> \<not> f32_is_inf (f2 v) \<and>
      \<not> f32_is_inf (f3 v)) \<and>
   FloatPoint4_op_not v = (\<not> FloatPoint4_op_bool v) \<and>
   \<not> FloatPoint2_op_bool (FloatPoint2_Set (f32_lit 1 1) f32_inf) \<and>
   FloatPoint2_op_not (FloatPoint2_Set (f32_lit 1 1) f32_inf) \<and>
   FloatPoint2_op_bool (FloatPoint2_Set (f32_lit 1 1) (f32_lit 2 1)) \<and>
   \<not> FloatPoint2_op_not (FloatPoint2_Set (f32_lit 1 1) (f32_lit 2 1))"
  unfolding f32_lit_values f32_inf_def
  by (simp add: FloatPoint2_op_bool_def FloatPoint2_op_not_def FloatPoint3_op_bool_def
      FloatPoint3_op_not_def FloatPoint4_op_bool_def FloatPoint4_op_not_def
      XMVectorIsNaN_iff XMVectorIsInfinite_iff FloatPoint2_Set_def XMVectorSet_def
      f32_is_nan_def f32_is_inf_def f32_tables)

theorem C5_bool_is_validity_witness:
  "\<not> FloatPoint3_op_bool (FloatPoint3_Set (f32_lit 1 1) (f32_lit 2 1) f32_qnan) \<and>
   FloatPoint3_op_not (FloatPoint3_Set (f32_lit 1 1) (f32_lit 2 1) f32_qnan) \<and>
   FloatPoint2_op_bool (FloatPoint3_Set (f32_lit 1 1) (f32_lit 2 1) f32_qnan)"
  using C5_bool_is_validity [of "FloatPoint3_Set (f32_lit 1 1) (f32_lit 2 1) f32_qnan"]
  unfolding f32_lit_values f32_qnan_def
  by (simp add: FloatPoint3_Set_def XMVectorSet_def f32_is_nan_def f32_is_inf_def f32_tables)

subsection \<open>Validate\<close>

text \<open>
  C7. \<^verbatim>\<open>Validate()\<close> always returns: a quaternion with a NaN in some lane becomes the
  identity (x = y = z = 0, w = 1), and any other quaternion is left as it is.
\<close>

theorem C7_Validate_fail_soft:
  "(f32_is_nan (f0 q) \<or> f32_is_nan (f1 q) \<or> f32_is_nan (f2 q) \<or> f32_is_nan (f3 q) \<longrightarrow>
      Quaternion_Validate q = FloatPoint4_Set 0 0 0 (f32_lit 1 1)) \<and>
   (\<not> (f32_is_nan (f0 q) \<or> f32_is_nan (f1 q) \<or> f32_is_nan (f2 q) \<or> f32_is_nan (f3 q)) \<longrightarrow>
      Quaternion_Validate q = q)"
  by (simp add: Quaternion_Validate_def XMQuaternionIsNaN_def XMVectorIsNaN_iff
      XMQuaternionIdentity_def g_XMIdentityR3_def FloatPoint4_Set_def)

theorem C7_Validate_fail_soft_witness:
  "f32_is_nan (f1 (FloatPoint4_Set 0 f32_qnan 0 (f32_lit 1 2))) \<and>
   Quaternion_Validate (FloatPoint4_Set 0 f32_qnan 0 (f32_lit 1 2))
     = FloatPoint4_Set 0 0 0 (f32_lit 1 1) \<and>
   \<not> f32_is_nan (f32_lit 1 2) \<and>
   Quaternion_Validate (FloatPoint4_Set (f32_lit 1 2) (f32_lit 1 2) (f32_lit 1 2) (f32_lit 1 2))
     = FloatPoint4_Set (f32_lit 1 2) (f32_lit 1 2) (f32_lit 1 2) (f32_lit 1 2)"
  using C7_Validate_fail_soft [of "FloatPoint4_Set 0 f32_qnan 0 (f32_lit 1 2)"]
    C7_Validate_fail_soft
      [of "FloatPoint4_Set (f32_lit 1 2) (f32_lit 1 2) (f32_lit 1 2) (f32_lit 1 2)"]
  unfolding f32_lit_values f32_qnan_def
  by (simp add: FloatPoint4_Set_def XMVectorSet_def f32_is_nan_def f32_tables)

subsection \<open>The relational operators of the vectors\<close>

text \<open>
  C8, as the specification states it: each of \<^verbatim>\<open>==\<close>, \<^verbatim>\<open>!=\<close>, \<^verbatim>\<open><\<close>, \<^verbatim>\<open><=\<close>, \<^verbatim>\<open>>\<close>, \<^verbatim>\<open>>=\<close> holds
  exactly when every logical lane satisfies the relation. That is not so for \<^verbatim>\<open>!=\<close>:
  \<open>(1, 5) != (1, 6)\<close> is true, and the lanes x are equal.
\<close>

theorem C8_ne_counterexample:
  "\<not> (FloatPoint2_op_ne (FloatPoint2_Set (f32_lit 1 1) (f32_lit 5 1))
                         (FloatPoint2_Set (f32_lit 1 1) (f32_lit 6 1))
       \<longleftrightarrow> f32_ne (f32_lit 1 1) (f32_lit 1 1) \<and> f32_ne (f32_lit 5 1) (f32_lit 6 1))"
  unfolding f32_lit_values
  by (simp add: FloatPoint2_op_ne_def XMVector2NotEqual_def FloatPoint2_Set_def XMVectorSet_def
      f32_ne_def f32_eq_def f32_valof_def f32_classes f32_tables)

text \<open>
  C8, amended: \<^verbatim>\<open>==\<close>, \<^verbatim>\<open><\<close>, \<^verbatim>\<open><=\<close>, \<^verbatim>\<open>>\<close> and \<^verbatim>\<open>>=\<close> of two vectors of the same width hold
  exactly when every logical lane satisfies the relation; \<^verbatim>\<open>!=\<close> holds exactly when
  some logical lane differs, so that it is the negation of \<^verbatim>\<open>==\<close>. No magnitude is
  compared: \<open>(1, 5) < (2, 10)\<close> is true and \<open>(1, 5) < (2, 3)\<close> is false.
\<close>

theorem C8_relational_operators:
  "FloatPoint2_op_eq a b = (f32_eq (f0 a) (f0 b) \<and> f32_eq (f1 a) (f1 b)) \<and>
   FloatPoint2_op_lt a b = (f32_lt (f0 a) (f0 b) \<and> f32_lt (f1 a) (f1 b)) \<and>
   FloatPoint2_op_le a b = (f32_le (f0 a) (f0 b) \<and> f32_le (f1 a) (f1 b)) \<and>
   FloatPoint2_op_gt a b = (f32_gt (f0 a) (f0 b) \<and> f32_gt (f1 a) (f1 b)) \<and>
   FloatPoint2_op_ge a b = (f32_ge (f0 a) (f0 b) \<and> f32_ge (f1 a) (f1 b)) \<and>
   FloatPoint2_op_ne a b = (f32_ne (f0 a) (f0 b) \<or> f32_ne (f1 a) (f1 b)) \<and>
   FloatPoint2_op_ne a b = (\<not> FloatPoint2_op_eq a b) \<and>
   FloatPoint3_op_eq a b = (f32_eq (f0 a) (f0 b) \<and> f32_eq (f1 a) (f1 b) \<and> f32_eq (f2 a) (f2 b)) \<and>
   FloatPoint3_op_lt a b = (f32_lt (f0 a) (f0 b) \<and> f32_lt (f1 a) (f1 b) \<and> f32_lt (f2 a) (f2 b)) \<and>
   FloatPoint3_op_le a b = (f32_le (f0 a) (f0 b) \<and> f32_le (f1 a) (f1 b) \<and> f32_le (f2 a) (f2 b)) \<and>
   FloatPoint3_op_gt a b = (f32_gt (f0 a) (f0 b) \<and> f32_gt (f1 a) (f1 b) \<and> f32_gt (f2 a) (f2 b)) \<and>
   FloatPoint3_op_ge a b = (f32_ge (f0 a) (f0 b) \<and> f32_ge (f1 a) (f1 b) \<and> f32_ge (f2 a) (f2 b)) \<and>
   FloatPoint3_op_ne a b = (f32_ne (f0 a) (f0 b) \<or> f32_ne (f1 a) (f1 b) \<or> f32_ne (f2 a) (f2 b)) \<and>
   FloatPoint3_op_ne a b = (\<not> FloatPoint3_op_eq a b) \<and>
   FloatPoint4_op_eq a b = (f32_eq (f0 a) (f0 b) \<and> f32_eq (f1 a) (f1 b) \<and> f32_eq (f2 a) (f2 b) \<and> f32_eq (f3 a) (f3 b)) \<and>
   FloatPoint4_op_lt a b = (f32_lt (f0 a) (f0 b) \<and> f32_lt (f1 a) (f1 b) \<and> f32_lt (f2 a) (f2 b) \<and> f32_lt (f3 a) (f3 b)) \<and>
   FloatPoint4_op_le a b = (f32_le (f0 a) (f0 b) \<and> f32_le (f1 a) (f1 b) \<and> f32_le (f2 a) (f2 b) \<and> f32_le (f3 a) (f3 b)) \<and>
   FloatPoint4_op_gt a b = (f32_gt (f0 a) (f0 b) \<and> f32_gt (f1 a) (f1 b) \<and> f32_gt (f2 a) (f2 b) \<and> f32_gt (f3 a) (f3 b)) \<and>
   FloatPoint4_op_ge a b = (f32_ge (f0 a) (f0 b) \<and> f32_ge (f1 a) (f1 b) \<and> f32_ge (f2 a) (f2 b) \<and> f32_ge (f3 a) (f3 b)) \<and>
   FloatPoint4_op_ne a b = (f32_ne (f0 a) (f0 b) \<or> f32_ne (f1 a) (f1 b) \<or> f32_ne (f2 a) (f2 b) \<or> f32_ne (f3 a) (f3 b)) \<and>
   FloatPoint4_op_ne a b = (\<not> FloatPoint4_op_eq a b) \<and>
   FloatPoint2_op_lt (FloatPoint2_Set (f32_lit 1 1) (f32_lit 5 1))
                     (FloatPoint2_Set (f32_lit 2 1) (f32_lit 10 1)) \<and>
   \<not> FloatPoint2_op_lt (FloatPoint2_Set (f32_lit 1 1) (f32_lit 5 1))
                       (FloatPoint2_Set (f32_lit 2 1) (f32_lit 3 1))"
  unfolding f32_lit_values
  by (simp add: FloatPoint2_op_eq_def FloatPoint2_op_ne_def FloatPoint2_op_lt_def
      FloatPoint2_op_le_def FloatPoint2_op_gt_def FloatPoint2_op_ge_def FloatPoint3_op_eq_def
      FloatPoint3_op_ne_def FloatPoint3_op_lt_def FloatPoint3_op_le_def FloatPoint3_op_gt_def
      FloatPoint3_op_ge_def FloatPoint4_op_eq_def FloatPoint4_op_ne_def FloatPoint4_op_lt_def
      FloatPoint4_op_le_def FloatPoint4_op_gt_def FloatPoint4_op_ge_def
      XMVector2Equal_def XMVector2NotEqual_def XMVector2Less_def XMVector2LessOrEqual_def
      XMVector2Greater_def XMVector2GreaterOrEqual_def XMVector3Equal_def XMVector3NotEqual_def
      XMVector3Less_def XMVector3LessOrEqual_def XMVector3Greater_def XMVector3GreaterOrEqual_def
      XMVector4Equal_def XMVector4NotEqual_def XMVector4Less_def XMVector4LessOrEqual_def
      XMVector4Greater_def XMVector4GreaterOrEqual_def
      FloatPoint2_Set_def XMVectorSet_def f32_ne_def f32_lt_def f32_valof_def f32_classes
      f32_tables)

theorem C8_relational_operators_witness:
  "FloatPoint3_op_ne (FloatPoint3_Set (f32_lit 1 1) (f32_lit 5 1) (f32_lit 2 1))
                     (FloatPoint3_Set (f32_lit 1 1) (f32_lit 6 1) (f32_lit 2 1)) \<and>
   \<not> FloatPoint3_op_eq (FloatPoint3_Set (f32_lit 1 1) (f32_lit 5 1) (f32_lit 2 1))
                       (FloatPoint3_Set (f32_lit 1 1) (f32_lit 6 1) (f32_lit 2 1)) \<and>
   FloatPoint3_op_le (FloatPoint3_Set (f32_lit 1 1) (f32_lit 5 1) (f32_lit 2 1))
                     (FloatPoint3_Set (f32_lit 1 1) (f32_lit 6 1) (f32_lit 2 1)) \<and>
   \<not> FloatPoint3_op_lt (FloatPoint3_Set (f32_lit 1 1) (f32_lit 5 1) (f32_lit 2 1))
                       (FloatPoint3_Set (f32_lit 1 1) (f32_lit 6 1) (f32_lit 2 1))"
  using C8_relational_operators
    [of "FloatPoint3_Set (f32_lit 1 1) (f32_lit 5 1) (f32_lit 2 1)"
        "FloatPoint3_Set (f32_lit 1 1) (f32_lit 6 1) (f32_lit 2 1)"]
  unfolding f32_lit_values
  by (simp add: FloatPoint3_Set_def XMVectorSet_def f32_compare f32_classes f32_tables)

subsection \<open>The conversion of a quaternion to bool\<close>

lemma Quaternion_op_bool_iff:
  "Quaternion_op_bool q \<longleftrightarrow>
     \<not> f32_is_nan (f3 q) \<and> \<bar>f32_valof (f3 q)\<bar> < f32_valof (f32_lit 999998 1000000)"
  unfolding Quaternion_op_bool_def FloatPoint4_GetW_def XMVectorGetW_def f32_lit_values
  by (simp add: f32_lt_def fabsf_expo fabsf_frac fabsf_valof f32_is_nan_def f32_tables)

lemma Quaternion_op_not_iff:
  "Quaternion_op_not q \<longleftrightarrow>
     \<not> f32_is_nan (f3 q) \<and> f32_valof (f32_lit 999998 1000000) \<le> \<bar>f32_valof (f3 q)\<bar>"
  unfolding Quaternion_op_not_def FloatPoint4_GetW_def XMVectorGetW_def f32_lit_values
  by (simp add: f32_ge_def fabsf_expo fabsf_frac fabsf_valof f32_is_nan_def f32_tables)

text \<open>
  C9, as stated: \<^verbatim>\<open>operator!\<close> of a quaternion is the negation of its conversion to
  \<^verbatim>\<open>bool\<close>. With a NaN in the lane w both are false.
\<close>

theorem C9_not_counterexample:
  "\<not> (Quaternion_op_not (FloatPoint4_Set 0 0 0 f32_qnan)
       \<longleftrightarrow> \<not> Quaternion_op_bool (FloatPoint4_Set 0 0 0 f32_qnan))"
  unfolding f32_qnan_def
  by (simp add: Quaternion_op_bool_iff Quaternion_op_not_iff FloatPoint4_Set_def XMVectorSet_def
      f32_is_nan_def f32_tables)

text \<open>
  C9, amended: the conversion of a quaternion to \<^verbatim>\<open>bool\<close> does not test validity. It is
  true exactly when the lane w is not a NaN and its absolute value is below the float
  \<^verbatim>\<open>0.999998f\<close>, which is 8388591 / 8388608. \<^verbatim>\<open>operator!\<close> is true exactly when w is not
  a NaN and its absolute value is at least that float: it is the negation of the
  conversion for every w that is not a NaN. The identity converts to false; a quaternion
  whose w is a NaN converts to false, is invalid as a \<^verbatim>\<open>FloatPoint4\<close>, and its
  \<^verbatim>\<open>operator!\<close> is false as well.
\<close>

theorem C9_bool_tests_rotation:
  "Quaternion_op_bool q =
     (\<not> f32_is_nan (f3 q) \<and> \<bar>f32_valof (f3 q)\<bar> < f32_valof (f32_lit 999998 1000000)) \<and>
   Quaternion_op_not q =
     (\<not> f32_is_nan (f3 q) \<and> f32_valof (f32_lit 999998 1000000) \<le> \<bar>f32_valof (f3 q)\<bar>) \<and>
   Quaternion_op_not q = (\<not> f32_is_nan (f3 q) \<and> \<not> Quaternion_op_bool q) \<and>
   f32_valof (f32_lit 999998 1000000) = 8388591 / 8388608 \<and>
   \<not> Quaternion_op_bool XMQuaternionIdentity \<and>
   Quaternion_op_not XMQuaternionIdentity \<and>
   \<not> Quaternion_op_bool (FloatPoint4_Set 0 0 0 f32_qnan) \<and>
   \<not> Quaternion_op_not (FloatPoint4_Set 0 0 0 f32_qnan) \<and>
   \<not> FloatPoint4_op_bool (FloatPoint4_Set 0 0 0 f32_qnan)"
proof -
  have c: "f32_valof (f32_lit 999998 1000000) = 8388591 / 8388608"
    unfolding f32_lit_values by (simp add: f32_valof_def f32_classes f32_tables)
  have i: "f32_valof (f3 XMQuaternionIdentity) = 1" "\<not> f32_is_nan (f3 XMQuaternionIdentity)"
    unfolding XMQuaternionIdentity_def g_XMIdentityR3_def f32_lit_values
    by (simp_all add: XMVectorSet_def f32_valof_def f32_classes f32_tables)
  have n: "f32_is_nan (f3 (FloatPoint4_Set 0 0 0 f32_qnan))"
    unfolding f32_qnan_def
    by (simp add: FloatPoint4_Set_def XMVectorSet_def f32_is_nan_def f32_tables)
  have "\<not> FloatPoint4_op_bool (FloatPoint4_Set 0 0 0 f32_qnan)"
    using n by (simp add: FloatPoint4_op_bool_def XMVectorIsNaN_iff)
  moreover have "Quaternion_op_not q = (\<not> f32_is_nan (f3 q) \<and> \<not> Quaternion_op_bool q)"
    by (auto simp add: Quaternion_op_bool_iff Quaternion_op_not_iff)
  ultimately show ?thesis
    using n i by (simp add: Quaternion_op_bool_iff Quaternion_op_not_iff c)
qed

theorem C9_bool_tests_rotation_witness:
  "Quaternion_op_bool (FloatPoint4_Set (f32_lit 1 2) (f32_lit 1 2) (f32_lit 1 2) (f32_lit 1 2)) \<and>
   \<not> Quaternion_op_not (FloatPoint4_Set (f32_lit 1 2) (f32_lit 1 2) (f32_lit 1 2) (f32_lit 1 2))"
  using C9_bool_tests_rotation
    [of "FloatPoint4_Set (f32_lit 1 2) (f32_lit 1 2) (f32_lit 1 2) (f32_lit 1 2)"]
  unfolding f32_lit_values
  by (simp add: FloatPoint4_Set_def XMVectorSet_def f32_valof_def f32_classes f32_tables)

subsection \<open>Evaluation of the vector functions\<close>

lemma XMVectorSet_sel:
  "f0 (XMVectorSet x y z w) = x"
  "f1 (XMVectorSet x y z w) = y"
  "f2 (XMVectorSet x y z w) = z"
  "f3 (XMVectorSet x y z w) = w"
  by (simp_all add: XMVectorSet_def)

lemma XMVectorSetW_Set: "XMVectorSetW (XMVectorSet x y z w) w' = XMVectorSet x y z w'"
  by (simp add: XMVectorSetW_def XMVectorSet_def)

lemma XMVectorSet_eq_iff:
  "XMVectorSet x y z w = XMVectorSet x' y' z' w' \<longleftrightarrow> x = x' \<and> y = y' \<and> z = z' \<and> w = w'"
  by (simp add: XMVectorSet_def)

lemma XMQuaternionMultiply_values:
  "XMQuaternionMultiply (XMVectorSet 0x3F000000 0x3F000000 0x3F000000 0x3F000000)
                        (XMVectorSet 0x3F800000 0 0 0)
     = XMVectorSet 0x3F000000 0xBF000000 0x3F000000 0xBF000000"
  "XMQuaternionMultiply (XMVectorSet 0xBF000000 0x3F000000 0xBF000000 0xBF000000)
                        (XMVectorSet 0x3F800000 0 0 0)
     = XMVectorSet 0xBF000000 0x3F000000 0x3F000000 0x3F000000"
  "XMQuaternionMultiply (XMVectorSet 0xBF000000 0x3F000000 0x3F000000 0x3F000000)
                        (XMVectorSet 0x3F000000 0xBF000000 0x3F000000 0xBF000000)
     = XMVectorSet 0 0xBF800000 0 0"
  "XMQuaternionMultiply (XMVectorSet 0xBF800000 0x80000000 0x80000000 0)
                        (XMVectorSet 0x3F800000 0 0 0)
     = XMVectorSet 0 0 0 0x3F800000"
  "XMQuaternionMultiply (XMVectorSet 0 0 0 0x3F800000)
                        (XMVectorSet 0x3F800000 0 0 0)
     = XMVectorSet 0x3F800000 0 0 0"
  "XMQuaternionMultiply (XMVectorSet 0xBF000000 0xBF000000 0xBF000000 0x3F000000)
                        (XMVectorSet 0x3F800000 0 0 0)
     = XMVectorSet 0x3F000000 0x3F000000 0xBF000000 0x3F000000"
  "XMQuaternionMultiply (XMVectorSet 0x3F000000 0x3F000000 0xBF000000 0x3F000000)
                        (XMVectorSet 0x3F000000 0x3F000000 0x3F000000 0x3F000000)
     = XMVectorSet 0 0x3F800000 0 0"
  "XMQuaternionMultiply (XMVectorSet 0xBF800000 0x80000000 0x80000000 0)
                        (XMVectorSet 0 0x3F800000 0 0)
     = XMVectorSet 0 0 0x3F800000 0"
  "XMQuaternionMultiply (XMVectorSet 0 0 0x3F800000 0)
                        (XMVectorSet 0x3F800000 0 0 0)
     = XMVectorSet 0 0xBF800000 0 0"
  "XMQuaternionMultiply (XMVectorSet 0 0 0 0x3F800000)
                        (XMVectorSet 0 0 0 0x3F800000)
     = XMVectorSet 0 0 0 0x3F800000"
  by (simp_all add: XMQuaternionMultiply_def XMVectorSet_sel f32_eval)

lemma XMVector3Rotate_values:
  "XMVector3Rotate (XMVectorSet 0x3F800000 0 0 0)
                   (XMVectorSet 0x3F000000 0xBF000000 0x3F000000 0xBF000000)
     = XMVectorSet 0 0xBF800000 0 0"
  "XMVector3Rotate (XMVectorSet 0x3F800000 0 0 0) (XMVectorSet 0x3F800000 0 0 0)
     = XMVectorSet 0x3F800000 0 0 0"
  "XMVector3Rotate (XMVectorSet 0x3F800000 0 0 0)
                   (XMVectorSet 0x3F000000 0x3F000000 0x3F000000 0x3F000000)
     = XMVectorSet 0 0x3F800000 0 0"
  "XMVector3Rotate (XMVectorSet 0 0x3F800000 0 0) (XMVectorSet 0x3F800000 0 0 0)
     = XMVectorSet 0 0xBF800000 0 0"
  unfolding XMVector3Rotate_def Let_def
  by (simp_all add: XMVectorSelect_def g_XMSelect1110_def XMQuaternionConjugate_def
      XMVectorSet_sel f32_neg_def XMQuaternionMultiply_values)

subsection \<open>The order of composition\<close>

text \<open>
  C3. Rotating \<open>v\<close> by \<open>q * p\<close> is to be rotating \<open>v\<close> by \<open>p\<close> and then the result by \<open>q\<close>.
  \<^verbatim>\<open>operator*\<close> passes its operands to \<^verbatim>\<open>XMQuaternionMultiply\<close> in the order \<open>(q, p)\<close>,
  and that is the rotation \<open>q\<close> followed by \<open>p\<close>. With \<open>q = (\<onehalf>, \<onehalf>, \<onehalf>, \<onehalf>)\<close>, a third of
  a turn about (1, 1, 1), \<open>p = (1, 0, 0, 0)\<close>, half a turn about the axis x, and
  \<open>v = (1, 0, 0)\<close>, every operation is exact: \<open>q * p\<close> takes \<open>v\<close> to \<open>(0, -1, 0)\<close>, which is
  \<open>p\<close> applied to \<open>q\<close> applied to \<open>v\<close>, whereas \<open>q\<close> applied to \<open>p\<close> applied to \<open>v\<close> is
  \<open>(0, 1, 0)\<close>.
\<close>

theorem C3_product_applies_left_operand_first:
  "Quaternion_op_mul_FloatPoint3
     (Quaternion_op_mul (FloatPoint4_Set (f32_lit 1 2) (f32_lit 1 2) (f32_lit 1 2) (f32_lit 1 2))
                        (FloatPoint4_Set (f32_lit 1 1) 0 0 0))
     (FloatPoint3_Set (f32_lit 1 1) 0 0)
     = FloatPoint3_Set 0 (f32_neg (f32_lit 1 1)) 0 \<and>
   Quaternion_op_mul_FloatPoint3
     (FloatPoint4_Set (f32_lit 1 2) (f32_lit 1 2) (f32_lit 1 2) (f32_lit 1 2))
     (Quaternion_op_mul_FloatPoint3 (FloatPoint4_Set (f32_lit 1 1) 0 0 0)
                                    (FloatPoint3_Set (f32_lit 1 1) 0 0))
     = FloatPoint3_Set 0 (f32_lit 1 1) 0 \<and>
   Quaternion_op_mul_FloatPoint3
     (FloatPoint4_Set (f32_lit 1 1) 0 0 0)
     (Quaternion_op_mul_FloatPoint3
        (FloatPoint4_Set (f32_lit 1 2) (f32_lit 1 2) (f32_lit 1 2) (f32_lit 1 2))
        (FloatPoint3_Set (f32_lit 1 1) 0 0))
     = FloatPoint3_Set 0 (f32_neg (f32_lit 1 1)) 0"
  unfolding f32_lit_values Quaternion_op_mul_FloatPoint3_def Quaternion_op_mul_def
    FloatPoint3_of_XMVECTOR_def FloatPoint4_Set_def FloatPoint3_Set_def
  by (simp add: XMQuaternionMultiply_values XMVector3Rotate_values XMVectorSetW_Set f32_neg_def)

subsection \<open>The angle of a quaternion\<close>

lemma XMScalarACos_minus_one: "XMScalarACos 0xBF800000 = 0x40490FDB"
  unfolding XMScalarACos_def Let_def XM_PI_def f32_lit_values XMScalarACos_coefficients
  by (simp add: fabsf_def sqrtf_def f32_ge_def f32_lt_def f32_valof_def f32_eval)

text \<open>
  C4. \<^verbatim>\<open>GetAngleQuaternion()\<close> is to lie in \<open>[0, \<pi>]\<close>. It is twice the arc cosine of the
  lane w, and the arc cosine is above \<open>\<pi>/2\<close> for a negative w. The negated identity
  \<^verbatim>\<open>-Quaternion()\<close> has \<open>w = -1\<close>: its angle is twice \<^verbatim>\<open>XM_PI\<close>, above \<^verbatim>\<open>XM_PI\<close> and above \<open>\<pi>\<close>.
\<close>

theorem C4_angle_exceeds_pi:
  "Quaternion_GetAngleQuaternion (Quaternion_op_neg XMQuaternionIdentity)
     = f32_mul (f32_lit 2 1) XM_PI \<and>
   f32_gt (Quaternion_GetAngleQuaternion (Quaternion_op_neg XMQuaternionIdentity)) XM_PI \<and>
   f32_valof (Quaternion_GetAngleQuaternion (Quaternion_op_neg XMQuaternionIdentity))
     = 13176795 / 2097152 \<and>
   pi < real_of_rat (f32_valof
          (Quaternion_GetAngleQuaternion (Quaternion_op_neg XMQuaternionIdentity)))"
proof -
  have w: "FloatPoint4_GetW (Quaternion_op_neg XMQuaternionIdentity) = 0xBF800000"
    unfolding XMQuaternionIdentity_def g_XMIdentityR3_def f32_lit_values
    by (simp add: FloatPoint4_GetW_def XMVectorGetW_def Quaternion_op_neg_def
        XMVectorNegate_def lanes1_def XMVectorSet_sel f32_neg_def)
  have a: "Quaternion_GetAngleQuaternion (Quaternion_op_neg XMQuaternionIdentity) = 0x40C90FDB"
    unfolding Quaternion_GetAngleQuaternion_def w XMScalarACos_minus_one f32_lit_values
    by (simp add: f32_eval)
  have m: "f32_mul (f32_lit 2 1) XM_PI = 0x40C90FDB"
    unfolding XM_PI_def f32_lit_values by (simp add: f32_eval)
  have g: "f32_gt 0x40C90FDB XM_PI"
    unfolding XM_PI_def f32_lit_values by (simp add: f32_gt_def f32_valof_def f32_eval)
  have v: "f32_valof 0x40C90FDB = 13176795 / 2097152"
    by (simp add: f32_valof_def f32_eval)
  have "pi < 4"
    by (rule pi_less_4)
  also have "(4 :: real) < real_of_rat (13176795 / 2097152)"
    by (simp add: of_rat_divide)
  finally have p: "pi < real_of_rat (13176795 / 2097152)" .
  show ?thesis
    unfolding a m v using g p by simp
qed

subsection \<open>Instance and static products of FloatPoint2\<close>

lemma FloatPoint2_DotProduct_static_lane:
  "FloatPoint2_DotProduct v vecIn =
     (if f32_is_nan (XMVectorGetX (FloatPoint2_DotProduct_static v vecIn)) then Inl AssertionFailed
      else Inr (XMVectorGetX (FloatPoint2_DotProduct_static v vecIn)))"
  by (simp add: FloatPoint2_DotProduct_def FloatPoint2_DotProduct_static_def Let_def)

text \<open>
  C6. The static \<^verbatim>\<open>FloatPoint2::CrossProduct(a, b)\<close> is to equal the instance call
  \<^verbatim>\<open>a.CrossProduct(b)\<close> lane for lane. The static one is \<^verbatim>\<open>XMVector2Cross\<close>, the 2D cross
  product in every lane; the instance one is \<^verbatim>\<open>XMVector3Cross\<close>, whose lanes x and y are
  zero for two vectors of the plane. At \<open>a = (1, 0)\<close> and \<open>b = (0, 1)\<close> the static product
  is \<open>(1, 1)\<close> and the instance product is \<open>(0, 0)\<close>.
\<close>

theorem C6_CrossProduct_static_differs_from_instance:
  "FloatPoint2_CrossProduct_static (FloatPoint2_Set (f32_lit 1 1) 0) (FloatPoint2_Set 0 (f32_lit 1 1))
     = XMVectorSet (f32_lit 1 1) (f32_lit 1 1) (f32_lit 1 1) (f32_lit 1 1) \<and>
   FloatPoint2_CrossProduct (FloatPoint2_Set (f32_lit 1 1) 0) (FloatPoint2_Set 0 (f32_lit 1 1))
     = XMVectorSet 0 0 (f32_lit 1 1) 0 \<and>
   \<not> f32_eq
       (XMVectorGetX (FloatPoint2_CrossProduct_static (FloatPoint2_Set (f32_lit 1 1) 0)
                                                      (FloatPoint2_Set 0 (f32_lit 1 1))))
       (XMVectorGetX (FloatPoint2_CrossProduct (FloatPoint2_Set (f32_lit 1 1) 0)
                                               (FloatPoint2_Set 0 (f32_lit 1 1))))"
  unfolding f32_lit_values FloatPoint2_CrossProduct_static_def FloatPoint2_CrossProduct_def
    FloatPoint2_Set_def XMVector2Cross_def XMVector3Cross_def XMVectorReplicate_def
    XMVectorGetX_def
  by (simp add: XMVectorSet_sel XMVectorSet_eq_iff f32_eq_def f32_valof_def f32_eval)

subsection \<open>The arithmetic operators of Quaternion\<close>















end
